theory Spec2Isabelle
  imports Main "HOL-Library.Word"
begin

unbundle bit_operations_syntax

section \<open>Voodoo Rush (SST-96) interface: register file, PUMA decoder, CMDFIFO\<close>

text \<open>
  A shallow embedding of \<^verbatim>\<open>src/video/vid_voodoo_rush.c\<close> and of the declarations of
  \<^verbatim>\<open>include/86box/vid_voodoo_rush.h\<close>.  The device structure \<^verbatim>\<open>voodoo_rush_t\<close> is a
  record that every operation takes and returns; C's \<^verbatim>\<open>uint32_t\<close> and \<^verbatim>\<open>int32_t\<close> are
  32-bit words (signed values are read with \<open>sint\<close>, compared with \<open><s\<close>); flags that the
  code only tests for truth (\<^verbatim>\<open>enabled\<close>, \<^verbatim>\<open>cmdfifo_enabled\<close>, \<^verbatim>\<open>puma_mode_8mb\<close>,
  \<^verbatim>\<open>swap_req\<close>, ...) are booleans.  All functions are modelled for a non-null device
  pointer.
\<close>

type_synonym u8 = "8 word"
type_synonym u16 = "16 word"
type_synonym u32 = "32 word"

subsection \<open>Byte memory\<close>

text \<open>
  The frame buffer and the texture memory are byte arrays.  The code reads and writes
  them through casted pointers (\<^verbatim>\<open>*(uint32_t *) &rush->puma_fb[a]\<close>); the model takes the
  host to be little-endian, as the hosts of the emulator are.  A memory is a total
  function from byte offsets; the code masks every frame-buffer offset with
  \<^verbatim>\<open>puma_fb_mask\<close>, which keeps aligned accesses inside the allocation.
\<close>

type_synonym mem = "nat \<Rightarrow> u8"

definition read32 :: "mem \<Rightarrow> u32 \<Rightarrow> u32" where
  "read32 m a =
     ucast (m (unat a)) OR push_bit 8 (ucast (m (unat a + 1))) OR
     push_bit 16 (ucast (m (unat a + 2))) OR push_bit 24 (ucast (m (unat a + 3)))"

definition write32 :: "mem \<Rightarrow> u32 \<Rightarrow> u32 \<Rightarrow> mem" where
  "write32 m a v =
     m(unat a := ucast v, unat a + 1 := ucast (drop_bit 8 v),
       unat a + 2 := ucast (drop_bit 16 v), unat a + 3 := ucast (drop_bit 24 v))"

definition write16 :: "mem \<Rightarrow> u32 \<Rightarrow> u16 \<Rightarrow> mem" where
  "write16 m a v = m(unat a := ucast v, unat a + 1 := ucast (drop_bit 8 v))"

subsection \<open>Register numbers and the PUMA address space layout\<close>

named_theorems sst96

definition SST96_STATUS :: u32 where [sst96]: "SST96_STATUS = 0x000"
definition SST96_VERTEX_AX :: u32 where [sst96]: "SST96_VERTEX_AX = 0x002"
definition SST96_VERTEX_AY :: u32 where [sst96]: "SST96_VERTEX_AY = 0x003"
definition SST96_VERTEX_BX :: u32 where [sst96]: "SST96_VERTEX_BX = 0x004"
definition SST96_VERTEX_BY :: u32 where [sst96]: "SST96_VERTEX_BY = 0x005"
definition SST96_VERTEX_CX :: u32 where [sst96]: "SST96_VERTEX_CX = 0x006"
definition SST96_VERTEX_CY :: u32 where [sst96]: "SST96_VERTEX_CY = 0x007"
definition SST96_START_R :: u32 where [sst96]: "SST96_START_R = 0x008"
definition SST96_DRDX :: u32 where [sst96]: "SST96_DRDX = 0x009"
definition SST96_DRDY :: u32 where [sst96]: "SST96_DRDY = 0x00a"
definition SST96_START_G :: u32 where [sst96]: "SST96_START_G = 0x00b"
definition SST96_DGDX :: u32 where [sst96]: "SST96_DGDX = 0x00c"
definition SST96_DGDY :: u32 where [sst96]: "SST96_DGDY = 0x00d"
definition SST96_START_B :: u32 where [sst96]: "SST96_START_B = 0x00e"
definition SST96_DBDX :: u32 where [sst96]: "SST96_DBDX = 0x00f"
definition SST96_DBDY :: u32 where [sst96]: "SST96_DBDY = 0x010"
definition SST96_START_Z :: u32 where [sst96]: "SST96_START_Z = 0x011"
definition SST96_DZDX :: u32 where [sst96]: "SST96_DZDX = 0x012"
definition SST96_DZDY :: u32 where [sst96]: "SST96_DZDY = 0x013"
definition SST96_START_A :: u32 where [sst96]: "SST96_START_A = 0x014"
definition SST96_DADX :: u32 where [sst96]: "SST96_DADX = 0x015"
definition SST96_DADY :: u32 where [sst96]: "SST96_DADY = 0x016"
definition SST96_START_S :: u32 where [sst96]: "SST96_START_S = 0x017"
definition SST96_DSDX :: u32 where [sst96]: "SST96_DSDX = 0x018"
definition SST96_DSDY :: u32 where [sst96]: "SST96_DSDY = 0x019"
definition SST96_START_T :: u32 where [sst96]: "SST96_START_T = 0x01a"
definition SST96_DTDX :: u32 where [sst96]: "SST96_DTDX = 0x01b"
definition SST96_DTDY :: u32 where [sst96]: "SST96_DTDY = 0x01c"
definition SST96_START_W :: u32 where [sst96]: "SST96_START_W = 0x01d"
definition SST96_DWDX :: u32 where [sst96]: "SST96_DWDX = 0x01e"
definition SST96_DWDY :: u32 where [sst96]: "SST96_DWDY = 0x01f"
definition SST96_TRIANGLE_CMD :: u32 where [sst96]: "SST96_TRIANGLE_CMD = 0x020"
definition SST96_NOP_CMD :: u32 where [sst96]: "SST96_NOP_CMD = 0x042"
definition SST96_FASTFILL_CMD :: u32 where [sst96]: "SST96_FASTFILL_CMD = 0x044"
definition SST96_SWAPBUFFER_CMD :: u32 where [sst96]: "SST96_SWAPBUFFER_CMD = 0x046"
definition SST96_SWAPPEND_CMD :: u32 where [sst96]: "SST96_SWAPPEND_CMD = 0x048"
definition SST96_FBZ_COLOR_PATH :: u32 where [sst96]: "SST96_FBZ_COLOR_PATH = 0x050"
definition SST96_FOG_MODE :: u32 where [sst96]: "SST96_FOG_MODE = 0x051"
definition SST96_ALPHA_MODE :: u32 where [sst96]: "SST96_ALPHA_MODE = 0x052"
definition SST96_FBZ_MODE :: u32 where [sst96]: "SST96_FBZ_MODE = 0x054"
definition SST96_STIPPLE :: u32 where [sst96]: "SST96_STIPPLE = 0x055"
definition SST96_COLOR0 :: u32 where [sst96]: "SST96_COLOR0 = 0x056"
definition SST96_COLOR1 :: u32 where [sst96]: "SST96_COLOR1 = 0x057"
definition SST96_FOG_COLOR :: u32 where [sst96]: "SST96_FOG_COLOR = 0x058"
definition SST96_ZA_COLOR :: u32 where [sst96]: "SST96_ZA_COLOR = 0x059"
definition SST96_CHROMA_KEY :: u32 where [sst96]: "SST96_CHROMA_KEY = 0x05a"
definition SST96_CHROMA_RANGE :: u32 where [sst96]: "SST96_CHROMA_RANGE = 0x05b"
definition SST96_COL_BUFFER_SETUP :: u32 where [sst96]: "SST96_COL_BUFFER_SETUP = 0x060"
definition SST96_AUX_BUFFER_SETUP :: u32 where [sst96]: "SST96_AUX_BUFFER_SETUP = 0x061"
definition SST96_CLIP_LEFT_RIGHT0 :: u32 where [sst96]: "SST96_CLIP_LEFT_RIGHT0 = 0x062"
definition SST96_CLIP_TOP_BOTTOM0 :: u32 where [sst96]: "SST96_CLIP_TOP_BOTTOM0 = 0x063"
definition SST96_CLIP_LEFT_RIGHT1 :: u32 where [sst96]: "SST96_CLIP_LEFT_RIGHT1 = 0x064"
definition SST96_CLIP_TOP_BOTTOM1 :: u32 where [sst96]: "SST96_CLIP_TOP_BOTTOM1 = 0x065"
definition SST96_FBIJR_INIT0 :: u32 where [sst96]: "SST96_FBIJR_INIT0 = 0x090"
definition SST96_FBIJR_INIT1 :: u32 where [sst96]: "SST96_FBIJR_INIT1 = 0x091"
definition SST96_FBIJR_INIT2 :: u32 where [sst96]: "SST96_FBIJR_INIT2 = 0x092"
definition SST96_FBIJR_INIT3 :: u32 where [sst96]: "SST96_FBIJR_INIT3 = 0x093"
definition SST96_FBIJR_INIT4 :: u32 where [sst96]: "SST96_FBIJR_INIT4 = 0x094"
definition SST96_FBIJR_INIT5 :: u32 where [sst96]: "SST96_FBIJR_INIT5 = 0x095"
definition SST96_FBIJR_VERSION :: u32 where [sst96]: "SST96_FBIJR_VERSION = 0x0a0"
definition SST96_FBI_PIXELS_IN :: u32 where [sst96]: "SST96_FBI_PIXELS_IN = 0x0a1"
definition SST96_FBI_CHROMA_FAIL :: u32 where [sst96]: "SST96_FBI_CHROMA_FAIL = 0x0a2"
definition SST96_FBI_ZFUNC_FAIL :: u32 where [sst96]: "SST96_FBI_ZFUNC_FAIL = 0x0a3"
definition SST96_FBI_AFUNC_FAIL :: u32 where [sst96]: "SST96_FBI_AFUNC_FAIL = 0x0a4"
definition SST96_FBI_PIXELS_OUT :: u32 where [sst96]: "SST96_FBI_PIXELS_OUT = 0x0a5"
definition SST96_TEXTURE_MODE :: u32 where [sst96]: "SST96_TEXTURE_MODE = 0x0c1"
definition SST96_TLOD :: u32 where [sst96]: "SST96_TLOD = 0x0c2"
definition SST96_TDETAIL :: u32 where [sst96]: "SST96_TDETAIL = 0x0c3"
definition SST96_TEX_BASE_ADDR :: u32 where [sst96]: "SST96_TEX_BASE_ADDR = 0x0c4"
definition SST96_TEX_BASE_ADDR1 :: u32 where [sst96]: "SST96_TEX_BASE_ADDR1 = 0x0c5"
definition SST96_TEX_BASE_ADDR2 :: u32 where [sst96]: "SST96_TEX_BASE_ADDR2 = 0x0c6"
definition SST96_TEX_BASE_ADDR38 :: u32 where [sst96]: "SST96_TEX_BASE_ADDR38 = 0x0c7"
definition SST96_CMDFIFO_BASE :: u32 where [sst96]: "SST96_CMDFIFO_BASE = 0x0e8"
definition SST96_CMDFIFO_TOP :: u32 where [sst96]: "SST96_CMDFIFO_TOP = 0x0e9"
definition SST96_CMDFIFO_BOTTOM :: u32 where [sst96]: "SST96_CMDFIFO_BOTTOM = 0x0ea"
definition SST96_CMDFIFO_RDPTR :: u32 where [sst96]: "SST96_CMDFIFO_RDPTR = 0x0eb"
definition SST96_CMDFIFO_THRESHOLD :: u32 where [sst96]: "SST96_CMDFIFO_THRESHOLD = 0x0ec"
definition SST96_CMDFIFO_ENABLE :: u32 where [sst96]: "SST96_CMDFIFO_ENABLE = 0x0ed"

definition SST96_PUMA_FB_SIZE :: u32 where [sst96]: "SST96_PUMA_FB_SIZE = 0x400000"
definition SST96_PUMA_REG_START :: u32 where [sst96]: "SST96_PUMA_REG_START = 0x400000"
definition SST96_PUMA_REG_SIZE :: u32 where [sst96]: "SST96_PUMA_REG_SIZE = 0x200000"
definition SST96_PUMA_TEX_START :: u32 where [sst96]: "SST96_PUMA_TEX_START = 0x600000"
definition SST96_PUMA_TEX_SIZE :: u32 where [sst96]: "SST96_PUMA_TEX_SIZE = 0x200000"
definition SST96_PUMA_FB_SIZE_4MB :: u32 where [sst96]: "SST96_PUMA_FB_SIZE_4MB = 0x200000"
definition SST96_PUMA_REG_START_4MB :: u32 where [sst96]: "SST96_PUMA_REG_START_4MB = 0x200000"
definition SST96_PUMA_REG_SIZE_4MB :: u32 where [sst96]: "SST96_PUMA_REG_SIZE_4MB = 0x100000"
definition SST96_PUMA_TEX_START_4MB :: u32 where [sst96]: "SST96_PUMA_TEX_START_4MB = 0x300000"
definition SST96_PUMA_TEX_SIZE_4MB :: u32 where [sst96]: "SST96_PUMA_TEX_SIZE_4MB = 0x100000"

text \<open>
  The write-mask bits of the FBZ mode register, \<^verbatim>\<open>FBZ_RGB_WMASK\<close> and
  \<^verbatim>\<open>FBZ_DEPTH_WMASK\<close>, are macros of \<^verbatim>\<open>vid_voodoo_regs.h\<close>, a header of the rendering
  engine.  Their values are parameters of the model: every function that reaches
  \<^verbatim>\<open>voodoo_rush_fastfill\<close> takes them in a record.
\<close>

record voodoo_regs =
  FBZ_RGB_WMASK :: u32
  FBZ_DEPTH_WMASK :: u32

subsection \<open>The device state\<close>

text \<open>The integer triangle parameters, \<^verbatim>\<open>rush->triangle\<close>.\<close>

record triangle_t =
  vertexAx :: u32
  vertexAy :: u32
  vertexBx :: u32
  vertexBy :: u32
  vertexCx :: u32
  vertexCy :: u32
  startR :: u32
  startG :: u32
  startB :: u32
  startA :: u32
  startZ :: u32
  dRdX :: u32
  dGdX :: u32
  dBdX :: u32
  dAdX :: u32
  dZdX :: u32
  dRdY :: u32
  dGdY :: u32
  dBdY :: u32
  dAdY :: u32
  dZdY :: u32
  startS :: u32
  startT :: u32
  startW :: u32
  dSdX :: u32
  dTdX :: u32
  dWdX :: u32
  dSdY :: u32
  dTdY :: u32
  dWdY :: u32

text \<open>
  The parameter block of the rendering engine, \<^verbatim>\<open>voodoo_params_t\<close>, is declared in a
  header of the rendering engine.  The record has the members that
  \<^verbatim>\<open>sst96_to_voodoo_params\<close> and \<^verbatim>\<open>voodoo_rush_render_triangle\<close> assign, as 32-bit words
  (the gradients are signed there as in \<^verbatim>\<open>rush->triangle\<close>); the block is zeroed
  first, so no other member carries information.  The frame-buffer pointer
  \<^verbatim>\<open>fb_mem\<close> is the frame buffer itself and \<^verbatim>\<open>aux_mem\<close> the byte offset into it.
\<close>

record tmu_params_t =
  tmu_startS :: u32
  tmu_startT :: u32
  tmu_startW :: u32
  tmu_dSdX :: u32
  tmu_dTdX :: u32
  tmu_dWdX :: u32
  tmu_dSdY :: u32
  tmu_dTdY :: u32
  tmu_dWdY :: u32

record voodoo_params_t =
  params_vertexAx :: u32
  params_vertexAy :: u32
  params_vertexBx :: u32
  params_vertexBy :: u32
  params_vertexCx :: u32
  params_vertexCy :: u32
  params_startR :: u32
  params_startG :: u32
  params_startB :: u32
  params_startA :: u32
  params_startZ :: u32
  params_dRdX :: u32
  params_dGdX :: u32
  params_dBdX :: u32
  params_dAdX :: u32
  params_dZdX :: u32
  params_dRdY :: u32
  params_dGdY :: u32
  params_dBdY :: u32
  params_dAdY :: u32
  params_dZdY :: u32
  params_tmu0 :: tmu_params_t
  params_tmu1 :: tmu_params_t
  params_fbzColorPath :: u32
  params_fogMode :: u32
  params_alphaMode :: u32
  params_fbzMode :: u32
  params_stipple :: u32
  params_color0 :: u32
  params_color1 :: u32
  params_fogColor_r :: u32
  params_fogColor_g :: u32
  params_fogColor_b :: u32
  params_zaColor :: u32
  params_chromaKey :: u32
  params_fogTable :: "nat \<Rightarrow> u8 \<times> u8"
  params_clipLeft :: u32
  params_clipRight :: u32
  params_clipLowY :: u32
  params_clipHighY :: u32
  params_draw_offset :: u32
  params_aux_offset :: u32
  params_textureMode0 :: u32
  params_textureMode1 :: u32
  params_tLOD0 :: u32
  params_tLOD1 :: u32
  params_texBaseAddr0 :: u32
  params_texBaseAddr1 :: u32
  params_texBaseAddr1_0 :: u32
  params_texBaseAddr1_1 :: u32
  params_fb_mem :: mem
  params_aux_mem :: u32

text \<open>
  The linked rendering engine, \<^verbatim>\<open>rush->voodoo\<close> (\<open>None\<close> is the null pointer that
  \<^verbatim>\<open>voodoo_rush_init\<close> leaves).  The engine is an external collaborator; the model keeps
  the flag the code reads and the parameter blocks the code submits.  The engine's own
  texture memory and texture cache (\<^verbatim>\<open>voodoo_rush_load_texture\<close>,
  \<^verbatim>\<open>flush_texture_cache\<close>) are not part of the device state and are not modelled.
\<close>

record voodoo_t =
  dual_tmus :: bool
  queued_triangles :: "voodoo_params_t list"

text \<open>
  The device, \<^verbatim>\<open>voodoo_rush_t\<close>.  Arrays are functions from the index
  (\<^verbatim>\<open>regs[256]\<close>, \<^verbatim>\<open>fbijr_init[6]\<close>, \<^verbatim>\<open>clip_left_right[2]\<close>, ...): the code reads and
  writes them below their declared size only.  Not modelled: the floating-point
  triangle \<^verbatim>\<open>ftriangle\<close> (no code writes it but the zeroing of reset), the opaque
  \<^verbatim>\<open>at3d_priv\<close> and the BIOS ROM.
\<close>

record voodoo_rush_t =
  puma_fb :: mem
  puma_fb_size :: u32
  puma_fb_mask :: u32
  regs :: "nat \<Rightarrow> u32"
  puma_tex :: mem
  puma_tex_size :: u32
  puma_tex_mask :: u32
  cmdfifo_base_page :: u32
  cmdfifo_top_page :: u32
  cmdfifo_bottom_page :: u32
  cmdfifo_entry_count :: u32
  cmdfifo_read_ptr :: u32
  cmdfifo_threshold :: u32
  cmdfifo_enabled :: bool
  fbijr_init :: "nat \<Rightarrow> u32"
  fbijr_version :: u32
  status :: u32
  triangle :: triangle_t
  fbz_color_path :: u32
  fog_mode :: u32
  alpha_mode :: u32
  fbz_mode :: u32
  stipple :: u32
  color0 :: u32
  color1 :: u32
  fog_color :: u32
  za_color :: u32
  chroma_key :: u32
  chroma_range :: u32
  col_buffer_setup :: u32
  aux_buffer_setup :: u32
  clip_left_right :: "nat \<Rightarrow> u32"
  clip_top_bottom :: "nat \<Rightarrow> u32"
  fog_table :: "nat \<Rightarrow> u8 \<times> u8"
  tex_chip_sel :: u32
  texture_mode :: u32
  tlod :: u32
  tdetail :: u32
  tex_base_addr :: "nat \<Rightarrow> u32"
  trex_init :: "nat \<Rightarrow> u32"
  pixels_in :: u32
  chroma_fail :: u32
  zfunc_fail :: u32
  afunc_fail :: u32
  pixels_out :: u32
  puma_mode_8mb :: bool
  puma_req :: bool
  puma_gnt :: bool
  swap_req :: bool
  swap_pending :: u32
  voodoo :: "voodoo_t option"
  window_x :: u32
  window_y :: u32
  window_width :: u32
  window_height :: u32
  enabled :: bool

subsection \<open>Address decode, construction and reset\<close>

definition puma_addr_to_reg :: "u32 \<Rightarrow> bool \<Rightarrow> u32" where
  "puma_addr_to_reg addr mode_8mb =
     (let reg_base = (if mode_8mb then SST96_PUMA_REG_START else SST96_PUMA_REG_START_4MB);
          offset = addr - reg_base
      in drop_bit 12 offset AND 0xff)"

definition triangle_zero :: triangle_t where
  "triangle_zero =
     \<lparr>vertexAx = 0, vertexAy = 0, vertexBx = 0, vertexBy = 0, vertexCx = 0, vertexCy = 0,
      startR = 0, startG = 0, startB = 0, startA = 0, startZ = 0,
      dRdX = 0, dGdX = 0, dBdX = 0, dAdX = 0, dZdX = 0,
      dRdY = 0, dGdY = 0, dBdY = 0, dAdY = 0, dZdY = 0,
      startS = 0, startT = 0, startW = 0,
      dSdX = 0, dTdX = 0, dWdX = 0, dSdY = 0, dTdY = 0, dWdY = 0\<rparr>"

text \<open>The zeroed structure that \<^verbatim>\<open>calloc\<close> returns.\<close>

definition rush_calloc :: voodoo_rush_t where
  "rush_calloc =
     \<lparr>puma_fb = (\<lambda>_. 0), puma_fb_size = 0, puma_fb_mask = 0, regs = (\<lambda>_. 0),
      puma_tex = (\<lambda>_. 0), puma_tex_size = 0, puma_tex_mask = 0,
      cmdfifo_base_page = 0, cmdfifo_top_page = 0, cmdfifo_bottom_page = 0,
      cmdfifo_entry_count = 0, cmdfifo_read_ptr = 0, cmdfifo_threshold = 0,
      cmdfifo_enabled = False, fbijr_init = (\<lambda>_. 0), fbijr_version = 0, status = 0,
      triangle = triangle_zero,
      fbz_color_path = 0, fog_mode = 0, alpha_mode = 0, fbz_mode = 0, stipple = 0,
      color0 = 0, color1 = 0, fog_color = 0, za_color = 0, chroma_key = 0, chroma_range = 0,
      col_buffer_setup = 0, aux_buffer_setup = 0,
      clip_left_right = (\<lambda>_. 0), clip_top_bottom = (\<lambda>_. 0), fog_table = (\<lambda>_. (0, 0)),
      tex_chip_sel = 0, texture_mode = 0, tlod = 0, tdetail = 0,
      tex_base_addr = (\<lambda>_. 0), trex_init = (\<lambda>_. 0),
      pixels_in = 0, chroma_fail = 0, zfunc_fail = 0, afunc_fail = 0, pixels_out = 0,
      puma_mode_8mb = False, puma_req = False, puma_gnt = False, swap_req = False,
      swap_pending = 0, voodoo = None,
      window_x = 0, window_y = 0, window_width = 0, window_height = 0, enabled = False\<rparr>"

text \<open>
  \<^verbatim>\<open>voodoo_rush_init\<close>, for allocations that succeed (the code returns a null pointer when
  the first \<^verbatim>\<open>calloc\<close> fails).
\<close>

definition voodoo_rush_init :: "bool \<Rightarrow> voodoo_rush_t" where
  "voodoo_rush_init mode_8mb =
     (let fb_size = (if mode_8mb then SST96_PUMA_FB_SIZE else SST96_PUMA_FB_SIZE_4MB);
          tex_size = (if mode_8mb then SST96_PUMA_TEX_SIZE else SST96_PUMA_TEX_SIZE_4MB)
      in rush_calloc
           \<lparr>puma_mode_8mb := mode_8mb,
            puma_fb_size := fb_size, puma_fb_mask := fb_size - 1, puma_fb := (\<lambda>_. 0),
            puma_tex_size := tex_size, puma_tex_mask := tex_size - 1, puma_tex := (\<lambda>_. 0),
            fbijr_version := 0x00010201,
            fbijr_init := (fbijr_init rush_calloc)
              (0 := 0x0000f201, 1 := 0x01800000, 2 := 0x00070d2d, 3 := 0x00180600),
            puma_req := False, puma_gnt := False, swap_req := False, swap_pending := 0,
            window_x := 0, window_y := 0, window_width := 640, window_height := 480,
            voodoo := None, enabled := True\<rparr>)"

definition voodoo_rush_reset :: "voodoo_rush_t \<Rightarrow> voodoo_rush_t" where
  "voodoo_rush_reset rush =
     rush\<lparr>regs := (\<lambda>_. 0), triangle := triangle_zero,
          status := 0, cmdfifo_enabled := False, cmdfifo_entry_count := 0,
          cmdfifo_read_ptr := 0, swap_pending := 0, swap_req := False,
          fbijr_init := (fbijr_init rush)
            (0 := 0x0000f201, 1 := 0x01800000, 2 := 0x00070d2d, 3 := 0x00180600)\<rparr>"

subsection \<open>Register reads\<close>

definition voodoo_rush_reg_read :: "voodoo_rush_t \<Rightarrow> u32 \<Rightarrow> u32" where
  "voodoo_rush_reg_read rush reg =
     (if reg \<ge> 256 then 0
      else if reg = SST96_STATUS then status rush
      else if reg = SST96_FBIJR_VERSION then fbijr_version rush
      else if reg = SST96_FBI_PIXELS_IN then pixels_in rush AND 0xffffff
      else if reg = SST96_FBI_CHROMA_FAIL then chroma_fail rush AND 0xffffff
      else if reg = SST96_FBI_ZFUNC_FAIL then zfunc_fail rush AND 0xffffff
      else if reg = SST96_FBI_AFUNC_FAIL then afunc_fail rush AND 0xffffff
      else if reg = SST96_FBI_PIXELS_OUT then pixels_out rush AND 0xffffff
      else if reg = SST96_FBIJR_INIT0 \<or> reg = SST96_FBIJR_INIT1 \<or> reg = SST96_FBIJR_INIT2 \<or>
              reg = SST96_FBIJR_INIT3 \<or> reg = SST96_FBIJR_INIT4 \<or> reg = SST96_FBIJR_INIT5
        then fbijr_init rush (unat (reg - SST96_FBIJR_INIT0))
      else if reg = SST96_COL_BUFFER_SETUP then col_buffer_setup rush
      else if reg = SST96_AUX_BUFFER_SETUP then aux_buffer_setup rush
      else if reg = SST96_CLIP_LEFT_RIGHT0 then clip_left_right rush 0
      else if reg = SST96_CLIP_TOP_BOTTOM0 then clip_top_bottom rush 0
      else if reg = SST96_CLIP_LEFT_RIGHT1 then clip_left_right rush 1
      else if reg = SST96_CLIP_TOP_BOTTOM1 then clip_top_bottom rush 1
      else regs rush (unat reg))"

subsection \<open>Parameter translation and the triangle command\<close>

definition sst96_to_voodoo_params :: "voodoo_rush_t \<Rightarrow> voodoo_params_t" where
  "sst96_to_voodoo_params rush =
     (let t = triangle rush;
          tmu0 = \<lparr>tmu_startS = startS t, tmu_startT = startT t, tmu_startW = startW t,
                  tmu_dSdX = dSdX t, tmu_dTdX = dTdX t, tmu_dWdX = dWdX t,
                  tmu_dSdY = dSdY t, tmu_dTdY = dTdY t, tmu_dWdY = dWdY t\<rparr>;
          windowed = (window_x rush \<noteq> 0 \<or> window_y rush \<noteq> 0);
          wx = (if windowed then window_x rush * 16 else 0);
          wy = (if windowed then window_y rush * 16 else 0)
      in \<lparr>params_vertexAx = vertexAx t + wx, params_vertexAy = vertexAy t + wy,
          params_vertexBx = vertexBx t + wx, params_vertexBy = vertexBy t + wy,
          params_vertexCx = vertexCx t + wx, params_vertexCy = vertexCy t + wy,
          params_startR = drop_bit 12 (startR t), params_startG = drop_bit 12 (startG t),
          params_startB = drop_bit 12 (startB t), params_startA = drop_bit 12 (startA t),
          params_startZ = drop_bit 12 (startZ t),
          params_dRdX = signed_drop_bit 12 (dRdX t), params_dGdX = signed_drop_bit 12 (dGdX t),
          params_dBdX = signed_drop_bit 12 (dBdX t), params_dAdX = signed_drop_bit 12 (dAdX t),
          params_dZdX = signed_drop_bit 12 (dZdX t),
          params_dRdY = signed_drop_bit 12 (dRdY t), params_dGdY = signed_drop_bit 12 (dGdY t),
          params_dBdY = signed_drop_bit 12 (dBdY t), params_dAdY = signed_drop_bit 12 (dAdY t),
          params_dZdY = signed_drop_bit 12 (dZdY t),
          params_tmu0 = tmu0, params_tmu1 = tmu0,
          params_fbzColorPath = fbz_color_path rush, params_fogMode = fog_mode rush,
          params_alphaMode = alpha_mode rush, params_fbzMode = fbz_mode rush,
          params_stipple = stipple rush, params_color0 = color0 rush,
          params_color1 = color1 rush,
          params_fogColor_r = drop_bit 0 (fog_color rush) AND 0xff,
          params_fogColor_g = drop_bit 8 (fog_color rush) AND 0xff,
          params_fogColor_b = drop_bit 16 (fog_color rush) AND 0xff,
          params_zaColor = za_color rush, params_chromaKey = chroma_key rush,
          params_fogTable = fog_table rush,
          params_clipLeft = drop_bit 0 (clip_left_right rush 0) AND 0x7ff,
          params_clipRight = drop_bit 16 (clip_left_right rush 0) AND 0x7ff,
          params_clipLowY = drop_bit 0 (clip_top_bottom rush 0) AND 0x7ff,
          params_clipHighY = drop_bit 16 (clip_top_bottom rush 0) AND 0x7ff,
          params_draw_offset = drop_bit 0 (col_buffer_setup rush) AND 0x3fffff,
          params_aux_offset = drop_bit 0 (aux_buffer_setup rush) AND 0x3fffff,
          params_textureMode0 = texture_mode rush, params_textureMode1 = texture_mode rush,
          params_tLOD0 = tlod rush, params_tLOD1 = tlod rush,
          params_texBaseAddr0 = tex_base_addr rush 0, params_texBaseAddr1 = tex_base_addr rush 1,
          params_texBaseAddr1_0 = tex_base_addr rush 1,
          params_texBaseAddr1_1 = tex_base_addr rush 1,
          params_fb_mem = (\<lambda>_. 0), params_aux_mem = 0\<rparr>)"

text \<open>
  Modelled from the spec: \<^verbatim>\<open>voodoo_queue_triangle\<close>, the rendering engine's "submit
  triangle parameters" call, whose code is outside this device.  Section 5 of the
  specification has it as a non-blocking enqueue with no acknowledgement: the block
  is appended to the engine's queue.
\<close>

definition voodoo_queue_triangle :: "voodoo_t \<Rightarrow> voodoo_params_t \<Rightarrow> voodoo_t" where
  "voodoo_queue_triangle v params = v\<lparr>queued_triangles := queued_triangles v @ [params]\<rparr>"

definition voodoo_rush_render_triangle :: "voodoo_rush_t \<Rightarrow> voodoo_rush_t" where
  "voodoo_rush_render_triangle rush =
     (case voodoo rush of
        None \<Rightarrow> rush
      | Some v \<Rightarrow>
          if \<not> enabled rush then rush
          else
            let params0 = sst96_to_voodoo_params rush;
                params = params0\<lparr>params_fb_mem := puma_fb rush,
                                 params_aux_mem := params_aux_offset params0\<rparr>
            in rush\<lparr>voodoo := Some (voodoo_queue_triangle v params),
                    pixels_in := pixels_in rush + 1\<rparr>)"

subsection \<open>Buffer swap and vsync\<close>

definition voodoo_rush_swap_buffers :: "voodoo_rush_t \<Rightarrow> voodoo_rush_t" where
  "voodoo_rush_swap_buffers rush = (if \<not> swap_req rush then rush else rush\<lparr>swap_req := False\<rparr>)"

definition voodoo_rush_vsync_callback :: "voodoo_rush_t \<Rightarrow> voodoo_rush_t" where
  "voodoo_rush_vsync_callback rush =
     (if \<not> enabled rush then rush
      else if 0 <s swap_pending rush \<and> swap_req rush then
        (let rush1 = rush\<lparr>swap_pending := swap_pending rush - 1\<rparr>
         in if swap_pending rush1 = 0 then voodoo_rush_swap_buffers rush1 else rush1)
      else rush)"

subsection \<open>FastFill\<close>

text \<open>
  The two nested \<^verbatim>\<open>for\<close> loops of \<^verbatim>\<open>voodoo_rush_fastfill\<close> run over the clip rectangle,
  whose bounds are 11-bit fields; each is a fold over the interval of its counter.
  \<open>fastfill_pixel\<close> is the body of the inner loop and \<open>fastfill_row\<close> the body of the outer
  one.
\<close>

definition fastfill_pixel ::
  "bool \<Rightarrow> bool \<Rightarrow> u16 \<Rightarrow> u32 \<Rightarrow> u32 \<Rightarrow> u32 \<Rightarrow> nat \<Rightarrow> voodoo_rush_t \<Rightarrow> voodoo_rush_t" where
  "fastfill_pixel fill_color_buf fill_depth_buf fill_color za col_offset aux_offset x rush =
     (let pixel_offset = col_offset + of_nat x * 2;
          depth_offset = aux_offset + of_nat x * 2
      in if pixel_offset \<ge> puma_fb_size rush then rush
         else
           let rush1 =
                 (if fill_color_buf
                  then rush\<lparr>puma_fb := write16 (puma_fb rush)
                                (pixel_offset AND puma_fb_mask rush) fill_color\<rparr>
                  else rush)
           in if fill_depth_buf \<and> depth_offset < puma_fb_size rush1
              then rush1\<lparr>puma_fb := write16 (puma_fb rush1)
                             (depth_offset AND puma_fb_mask rush1) (ucast (za AND 0xffff))\<rparr>
              else rush1)"

definition fastfill_row ::
  "bool \<Rightarrow> bool \<Rightarrow> u16 \<Rightarrow> u32 \<Rightarrow> bool \<Rightarrow> u32 \<Rightarrow> u32 \<Rightarrow> u32 \<Rightarrow> u32 \<Rightarrow> nat \<Rightarrow> nat \<Rightarrow> nat \<Rightarrow>
   nat \<Rightarrow> voodoo_rush_t \<Rightarrow> voodoo_rush_t" where
  "fastfill_row fill_color_buf fill_depth_buf fill_color za y_flip col_base aux_base
       col_stride aux_stride clip_left clip_right clip_bottom y rush =
     (let y_offset = (if y_flip then of_nat (clip_bottom - 1 - y) else of_nat y);
          col_offset = col_base + y_offset * col_stride;
          aux_offset = aux_base + y_offset * aux_stride
      in fold (fastfill_pixel fill_color_buf fill_depth_buf fill_color za col_offset aux_offset)
           [clip_left ..< clip_right] rush)"

definition voodoo_rush_fastfill :: "voodoo_regs \<Rightarrow> voodoo_rush_t \<Rightarrow> voodoo_rush_t" where
  "voodoo_rush_fastfill K rush =
     (if \<not> enabled rush then rush
      else
        let col_base = drop_bit 0 (col_buffer_setup rush) AND 0x3fffff;
            aux_base = drop_bit 0 (aux_buffer_setup rush) AND 0x3fffff;
            col_stride = (drop_bit 22 (col_buffer_setup rush) AND 0x1ff) * 4;
            aux_stride = (drop_bit 22 (aux_buffer_setup rush) AND 0x1ff) * 4;
            clip_left = unat (drop_bit 0 (clip_left_right rush 0) AND 0x7ff);
            clip_right = unat (drop_bit 16 (clip_left_right rush 0) AND 0x7ff);
            clip_top = unat (drop_bit 0 (clip_top_bottom rush 0) AND 0x7ff);
            clip_bottom = unat (drop_bit 16 (clip_top_bottom rush 0) AND 0x7ff);
            color32 = color0 rush;
            fill_color = (ucast ((drop_bit 19 color32 AND 0x1f) OR
                                 push_bit 5 (drop_bit 10 color32 AND 0x3f) OR
                                 push_bit 11 (drop_bit 3 color32 AND 0x1f)) :: u16);
            y_flip = (fbz_mode rush AND push_bit 17 1 \<noteq> 0);
            fill_color_buf = (fbz_mode rush AND FBZ_RGB_WMASK K \<noteq> 0);
            fill_depth_buf = (fbz_mode rush AND FBZ_DEPTH_WMASK K \<noteq> 0);
            za = za_color rush
        in fold (fastfill_row fill_color_buf fill_depth_buf fill_color za y_flip col_base
                   aux_base col_stride aux_stride clip_left clip_right clip_bottom)
             [clip_top ..< clip_bottom] rush)"

subsection \<open>Register writes\<close>

text \<open>
  \<^verbatim>\<open>voodoo_rush_reg_write\<close> stores the value in the raw array and then dispatches on the
  register number.  The \<^verbatim>\<open>switch\<close> is a chain of tests in the order of its labels.  The
  labels \<^verbatim>\<open>SST96_FBIJR_INIT4\<close> and \<^verbatim>\<open>SST96_FBIJR_INIT5\<close> stand twice in the source: in
  the group of the six init registers and again, each with a statement of its own,
  after the group.  The chain keeps both in their places, so the first one is the one that
  is taken.
\<close>

definition voodoo_rush_reg_write ::
  "voodoo_regs \<Rightarrow> voodoo_rush_t \<Rightarrow> u32 \<Rightarrow> u32 \<Rightarrow> voodoo_rush_t" where
  "voodoo_rush_reg_write K rush reg val =
     (if reg \<ge> 256 then rush
      else
        let r = rush\<lparr>regs := (regs rush)(unat reg := val)\<rparr>
        in
        if reg = SST96_VERTEX_AX then
          r\<lparr>triangle := (triangle r)\<lparr>vertexAx := scast (ucast (val AND 0xffff) :: u16)\<rparr>\<rparr>
        else if reg = SST96_VERTEX_AY then
          r\<lparr>triangle := (triangle r)\<lparr>vertexAy := scast (ucast (val AND 0xffff) :: u16)\<rparr>\<rparr>
        else if reg = SST96_VERTEX_BX then
          r\<lparr>triangle := (triangle r)\<lparr>vertexBx := scast (ucast (val AND 0xffff) :: u16)\<rparr>\<rparr>
        else if reg = SST96_VERTEX_BY then
          r\<lparr>triangle := (triangle r)\<lparr>vertexBy := scast (ucast (val AND 0xffff) :: u16)\<rparr>\<rparr>
        else if reg = SST96_VERTEX_CX then
          r\<lparr>triangle := (triangle r)\<lparr>vertexCx := scast (ucast (val AND 0xffff) :: u16)\<rparr>\<rparr>
        else if reg = SST96_VERTEX_CY then
          r\<lparr>triangle := (triangle r)\<lparr>vertexCy := scast (ucast (val AND 0xffff) :: u16)\<rparr>\<rparr>
        else if reg = SST96_START_R then
          r\<lparr>triangle := (triangle r)\<lparr>startR := val AND 0xffffff\<rparr>\<rparr>
        else if reg = SST96_START_G then
          r\<lparr>triangle := (triangle r)\<lparr>startG := val AND 0xffffff\<rparr>\<rparr>
        else if reg = SST96_START_B then
          r\<lparr>triangle := (triangle r)\<lparr>startB := val AND 0xffffff\<rparr>\<rparr>
        else if reg = SST96_START_A then
          r\<lparr>triangle := (triangle r)\<lparr>startA := val AND 0xffffff\<rparr>\<rparr>
        else if reg = SST96_START_Z then
          r\<lparr>triangle := (triangle r)\<lparr>startZ := val\<rparr>\<rparr>
        else if reg = SST96_START_S then
          r\<lparr>triangle := (triangle r)\<lparr>startS := val\<rparr>\<rparr>
        else if reg = SST96_START_T then
          r\<lparr>triangle := (triangle r)\<lparr>startT := val\<rparr>\<rparr>
        else if reg = SST96_START_W then
          r\<lparr>triangle := (triangle r)\<lparr>startW := val\<rparr>\<rparr>
        else if reg = SST96_DRDX then
          r\<lparr>triangle := (triangle r)\<lparr>dRdX := 
            (if val AND 0x800000 \<noteq> 0 then val OR 0xff000000 else val AND 0xffffff)\<rparr>\<rparr>
        else if reg = SST96_DGDX then
          r\<lparr>triangle := (triangle r)\<lparr>dGdX := 
            (if val AND 0x800000 \<noteq> 0 then val OR 0xff000000 else val AND 0xffffff)\<rparr>\<rparr>
        else if reg = SST96_DBDX then
          r\<lparr>triangle := (triangle r)\<lparr>dBdX := 
            (if val AND 0x800000 \<noteq> 0 then val OR 0xff000000 else val AND 0xffffff)\<rparr>\<rparr>
        else if reg = SST96_DADX then
          r\<lparr>triangle := (triangle r)\<lparr>dAdX := 
            (if val AND 0x800000 \<noteq> 0 then val OR 0xff000000 else val AND 0xffffff)\<rparr>\<rparr>
        else if reg = SST96_DZDX then
          r\<lparr>triangle := (triangle r)\<lparr>dZdX := val\<rparr>\<rparr>
        else if reg = SST96_DSDX then
          r\<lparr>triangle := (triangle r)\<lparr>dSdX := val\<rparr>\<rparr>
        else if reg = SST96_DTDX then
          r\<lparr>triangle := (triangle r)\<lparr>dTdX := val\<rparr>\<rparr>
        else if reg = SST96_DWDX then
          r\<lparr>triangle := (triangle r)\<lparr>dWdX := val\<rparr>\<rparr>
        else if reg = SST96_DRDY then
          r\<lparr>triangle := (triangle r)\<lparr>dRdY := 
            (if val AND 0x800000 \<noteq> 0 then val OR 0xff000000 else val AND 0xffffff)\<rparr>\<rparr>
        else if reg = SST96_DGDY then
          r\<lparr>triangle := (triangle r)\<lparr>dGdY := 
            (if val AND 0x800000 \<noteq> 0 then val OR 0xff000000 else val AND 0xffffff)\<rparr>\<rparr>
        else if reg = SST96_DBDY then
          r\<lparr>triangle := (triangle r)\<lparr>dBdY := 
            (if val AND 0x800000 \<noteq> 0 then val OR 0xff000000 else val AND 0xffffff)\<rparr>\<rparr>
        else if reg = SST96_DADY then
          r\<lparr>triangle := (triangle r)\<lparr>dAdY := 
            (if val AND 0x800000 \<noteq> 0 then val OR 0xff000000 else val AND 0xffffff)\<rparr>\<rparr>
        else if reg = SST96_DZDY then
          r\<lparr>triangle := (triangle r)\<lparr>dZdY := val\<rparr>\<rparr>
        else if reg = SST96_DSDY then
          r\<lparr>triangle := (triangle r)\<lparr>dSdY := val\<rparr>\<rparr>
        else if reg = SST96_DTDY then
          r\<lparr>triangle := (triangle r)\<lparr>dTdY := val\<rparr>\<rparr>
        else if reg = SST96_DWDY then
          r\<lparr>triangle := (triangle r)\<lparr>dWdY := val\<rparr>\<rparr>
        else if reg = SST96_TRIANGLE_CMD then
          voodoo_rush_render_triangle r
        else if reg = SST96_NOP_CMD then
          r
        else if reg = SST96_FASTFILL_CMD then
          voodoo_rush_fastfill K r
        else if reg = SST96_SWAPBUFFER_CMD then
          r\<lparr>swap_req := True,
                 swap_pending := (if 0 <s swap_pending r then swap_pending r - 1
                                  else swap_pending r)\<rparr>
        else if reg = SST96_SWAPPEND_CMD then
          r\<lparr>swap_pending := (if 7 <s swap_pending r + 1 then 7 else swap_pending r + 1)\<rparr>
        else if reg = SST96_FBZ_COLOR_PATH then
          r\<lparr>fbz_color_path := val AND 0x0fffffff\<rparr>
        else if reg = SST96_FOG_MODE then
          r\<lparr>fog_mode := val AND 0x3f\<rparr>
        else if reg = SST96_ALPHA_MODE then
          r\<lparr>alpha_mode := val\<rparr>
        else if reg = SST96_FBZ_MODE then
          r\<lparr>fbz_mode := val AND 0xfffff\<rparr>
        else if reg = SST96_STIPPLE then
          r\<lparr>stipple := val\<rparr>
        else if reg = SST96_COLOR0 then
          r\<lparr>color0 := val\<rparr>
        else if reg = SST96_COLOR1 then
          r\<lparr>color1 := val\<rparr>
        else if reg = SST96_FOG_COLOR then
          r\<lparr>fog_color := val AND 0xffffff\<rparr>
        else if reg = SST96_ZA_COLOR then
          r\<lparr>za_color := val\<rparr>
        else if reg = SST96_CHROMA_KEY then
          r\<lparr>chroma_key := val AND 0xffffff\<rparr>
        else if reg = SST96_CHROMA_RANGE then
          r\<lparr>chroma_range := val AND 0x1fffffff\<rparr>
        else if reg = SST96_COL_BUFFER_SETUP then
          r\<lparr>col_buffer_setup := val\<rparr>
        else if reg = SST96_AUX_BUFFER_SETUP then
          r\<lparr>aux_buffer_setup := val AND 0x7fffffff\<rparr>
        else if reg = SST96_CLIP_LEFT_RIGHT0 then
          r\<lparr>clip_left_right := (clip_left_right r)(0 := val)\<rparr>
        else if reg = SST96_CLIP_TOP_BOTTOM0 then
          r\<lparr>clip_top_bottom := (clip_top_bottom r)(0 := val)\<rparr>
        else if reg = SST96_CLIP_LEFT_RIGHT1 then
          r\<lparr>clip_left_right := (clip_left_right r)(1 := val)\<rparr>
        else if reg = SST96_CLIP_TOP_BOTTOM1 then
          r\<lparr>clip_top_bottom := (clip_top_bottom r)(1 := val)\<rparr>
        else if reg = SST96_FBIJR_INIT0 \<or> reg = SST96_FBIJR_INIT1 \<or> reg = SST96_FBIJR_INIT2 \<or>
                reg = SST96_FBIJR_INIT3 \<or> reg = SST96_FBIJR_INIT4 \<or> reg = SST96_FBIJR_INIT5 then
          (let r1 = r\<lparr>fbijr_init := (fbijr_init r)(unat (reg - SST96_FBIJR_INIT0) := val)\<rparr>
           in if reg = SST96_FBIJR_INIT3
              then r1\<lparr>cmdfifo_enabled := (val AND 0x01 \<noteq> 0),
                      cmdfifo_bottom_page := drop_bit 1 val AND 0x3ff,
                      cmdfifo_top_page := drop_bit 11 val AND 0x3ff,
                      cmdfifo_threshold := drop_bit 21 val AND 0x3ff\<rparr>
              else r1)
        else if reg = SST96_FBIJR_INIT4 then
          r\<lparr>cmdfifo_entry_count := val AND 0x7ffff\<rparr>
        else if reg = SST96_FBIJR_INIT5 then
          r\<lparr>cmdfifo_read_ptr := val AND 0x7ffff\<rparr>
        else if reg = SST96_TEXTURE_MODE then
          r\<lparr>texture_mode := val AND 0x7fffffff\<rparr>
        else if reg = SST96_TLOD then
          r\<lparr>tlod := val AND 0x7fffffff\<rparr>
        else if reg = SST96_TDETAIL then
          r\<lparr>tdetail := val AND 0xffff\<rparr>
        else if reg = SST96_TEX_BASE_ADDR then
          r\<lparr>tex_base_addr := (tex_base_addr r)(0 := val AND 0x7ffff)\<rparr>
        else if reg = SST96_TEX_BASE_ADDR1 then
          r\<lparr>tex_base_addr := (tex_base_addr r)(1 := val AND 0x7ffff)\<rparr>
        else if reg = SST96_TEX_BASE_ADDR2 then
          r\<lparr>tex_base_addr := (tex_base_addr r)(2 := val AND 0x7ffff)\<rparr>
        else if reg = SST96_TEX_BASE_ADDR38 then
          r\<lparr>tex_base_addr := (tex_base_addr r)(3 := val AND 0x7ffff)\<rparr>
        else if reg = SST96_CMDFIFO_BASE then
          r\<lparr>cmdfifo_bottom_page := val AND 0xffff\<rparr>
        else if reg = SST96_CMDFIFO_TOP then
          r\<lparr>cmdfifo_top_page := val AND 0xffff\<rparr>
        else if reg = SST96_CMDFIFO_BOTTOM then
          r\<lparr>cmdfifo_bottom_page := val AND 0xffff\<rparr>
        else if reg = SST96_CMDFIFO_RDPTR then
          r\<lparr>cmdfifo_read_ptr := val AND 0xffff\<rparr>
        else if reg = SST96_CMDFIFO_THRESHOLD then
          r\<lparr>cmdfifo_threshold := val AND 0xffff\<rparr>
        else if reg = SST96_CMDFIFO_ENABLE then
          r\<lparr>cmdfifo_enabled := (val AND 0x01 \<noteq> 0)\<rparr>
        else r)"

subsection \<open>The command FIFO\<close>

text \<open>
  One bit of a grouped packet's mask (\<^verbatim>\<open>mask\<close> in the source, \<open>data_mask\<close> here): the body of the second \<^verbatim>\<open>for\<close> loop of the
  grouped branch, on the device and the running \<^verbatim>\<open>read_addr\<close>.
\<close>

definition cmdfifo_grouped_write ::
  "voodoo_regs \<Rightarrow> u32 \<Rightarrow> u32 \<Rightarrow> nat \<Rightarrow> voodoo_rush_t \<times> u32 \<Rightarrow> voodoo_rush_t \<times> u32" where
  "cmdfifo_grouped_write K base_addr data_mask i s =
     (let rush = fst s; read_addr = snd s
      in if bit data_mask i then
           let reg_addr = push_bit 2 (base_addr + of_nat i);
               reg_data = read32 (puma_fb rush) (read_addr AND puma_fb_mask rush);
               reg_start = (if puma_mode_8mb rush then SST96_PUMA_REG_START
                            else SST96_PUMA_REG_START_4MB);
               reg_end = (if puma_mode_8mb rush then SST96_PUMA_REG_START + SST96_PUMA_REG_SIZE
                          else SST96_PUMA_REG_START_4MB + SST96_PUMA_REG_SIZE_4MB);
               puma_reg_addr = reg_addr + reg_start
           in if puma_reg_addr \<ge> reg_start \<and> puma_reg_addr < reg_end
              then (voodoo_rush_reg_write K rush
                      (puma_addr_to_reg puma_reg_addr (puma_mode_8mb rush)) reg_data,
                    read_addr + 4)
              else (rush, read_addr + 4)
         else (rush, read_addr))"

text \<open>
  One iteration of the \<^verbatim>\<open>while\<close> loop of \<^verbatim>\<open>voodoo_rush_process_cmdfifo\<close>, for the values
  of \<^verbatim>\<open>cmdfifo_base\<close>, \<^verbatim>\<open>cmdfifo_top\<close> and \<^verbatim>\<open>cmdfifo_size\<close> computed before the loop.
  \<open>None\<close> is the \<^verbatim>\<open>break\<close> of the bounds check; every other path decrements the entry
  count, and the loop then increments \<^verbatim>\<open>processed\<close>.
\<close>

definition cmdfifo_read_addr :: "u32 \<Rightarrow> u32 \<Rightarrow> voodoo_rush_t \<Rightarrow> u32" where
  "cmdfifo_read_addr cmdfifo_base cmdfifo_size rush =
     cmdfifo_base + (push_bit 3 (cmdfifo_read_ptr rush) AND push_bit 3 cmdfifo_size)"

definition cmdfifo_iter ::
  "voodoo_regs \<Rightarrow> u32 \<Rightarrow> u32 \<Rightarrow> u32 \<Rightarrow> voodoo_rush_t \<Rightarrow> voodoo_rush_t option" where
  "cmdfifo_iter K cmdfifo_base cmdfifo_top cmdfifo_size rush =
     (let read_addr = cmdfifo_read_addr cmdfifo_base cmdfifo_size rush
      in if read_addr < cmdfifo_base \<or> read_addr + 8 > cmdfifo_top then None
         else
           let addr_data = read32 (puma_fb rush) (read_addr AND puma_fb_mask rush);
               data = read32 (puma_fb rush) ((read_addr + 4) AND puma_fb_mask rush)
           in if addr_data = 0 \<and> data = 0 then
                Some (rush\<lparr>cmdfifo_read_ptr := (cmdfifo_read_ptr rush + 2) mod cmdfifo_size,
                           cmdfifo_entry_count := cmdfifo_entry_count rush - 1\<rparr>)
              else if addr_data AND 0x80000000 \<noteq> 0 then
                (let base_addr = drop_bit 2 addr_data AND 0x1fffff;
                     data_mask = data;
                     num_writes = length (filter (bit data_mask) [0 ..< 32])
                 in if num_writes = 0 \<or> num_writes > 32 then
                      Some (rush\<lparr>cmdfifo_read_ptr :=
                                   (cmdfifo_read_ptr rush + 2) mod cmdfifo_size,
                                 cmdfifo_entry_count := cmdfifo_entry_count rush - 1\<rparr>)
                    else
                      let rush1 = fst (fold (cmdfifo_grouped_write K base_addr data_mask) [0 ..< 32]
                                         (rush, read_addr + 8))
                      in Some (rush1\<lparr>cmdfifo_read_ptr :=
                                       (cmdfifo_read_ptr rush1 + 1 + of_nat num_writes)
                                         mod cmdfifo_size,
                                     cmdfifo_entry_count := cmdfifo_entry_count rush1 - 1\<rparr>))
              else
                (let reg_addr = drop_bit 2 addr_data AND 0x1fffff;
                     reg_start = (if puma_mode_8mb rush then SST96_PUMA_REG_START
                                  else SST96_PUMA_REG_START_4MB);
                     reg_end = (if puma_mode_8mb rush
                                then SST96_PUMA_REG_START + SST96_PUMA_REG_SIZE
                                else SST96_PUMA_REG_START_4MB + SST96_PUMA_REG_SIZE_4MB);
                     puma_reg_addr = reg_addr + reg_start;
                     rush1 = (if puma_reg_addr \<ge> reg_start \<and> puma_reg_addr < reg_end
                              then voodoo_rush_reg_write K rush
                                     (puma_addr_to_reg puma_reg_addr (puma_mode_8mb rush)) data
                              else rush)
                 in Some (rush1\<lparr>cmdfifo_read_ptr :=
                                  (cmdfifo_read_ptr rush1 + 2) mod cmdfifo_size,
                                cmdfifo_entry_count := cmdfifo_entry_count rush1 - 1\<rparr>)))"

text \<open>
  The \<^verbatim>\<open>while\<close> loop.  \<^verbatim>\<open>processed\<close> and \<^verbatim>\<open>max_process\<close> are C \<^verbatim>\<open>int\<close>s;
  \<^verbatim>\<open>processed\<close> counts up from 0 and stays below \<^verbatim>\<open>max_process\<close>, so it cannot
  overflow and is an integer here.  The loop ends: every iteration that does not leave
  it increments \<^verbatim>\<open>processed\<close>.
\<close>

function cmdfifo_loop ::
  "voodoo_regs \<Rightarrow> u32 \<Rightarrow> u32 \<Rightarrow> u32 \<Rightarrow> int \<Rightarrow> voodoo_rush_t \<Rightarrow> int \<Rightarrow> voodoo_rush_t" where
  "cmdfifo_loop K cmdfifo_base cmdfifo_top cmdfifo_size max_process rush processed =
     (if cmdfifo_entry_count rush > 0 \<and> processed < max_process then
        (case cmdfifo_iter K cmdfifo_base cmdfifo_top cmdfifo_size rush of
           None \<Rightarrow> rush
         | Some rush1 \<Rightarrow>
             cmdfifo_loop K cmdfifo_base cmdfifo_top cmdfifo_size max_process rush1
               (processed + 1))
      else rush)"
  by pat_completeness auto
termination
  by (relation "measure (\<lambda>(K, b, t, s, max_process, rush, processed).
                  nat (max_process - processed))") auto

declare cmdfifo_loop.simps [simp del]

definition voodoo_rush_process_cmdfifo :: "voodoo_regs \<Rightarrow> voodoo_rush_t \<Rightarrow> voodoo_rush_t" where
  "voodoo_rush_process_cmdfifo K rush =
     (if \<not> cmdfifo_enabled rush \<or> cmdfifo_entry_count rush = 0 then rush
      else
        let cmdfifo_base = push_bit 12 (cmdfifo_bottom_page rush);
            cmdfifo_top = push_bit 12 (cmdfifo_top_page rush);
            cmdfifo_size = drop_bit 3 (cmdfifo_top - cmdfifo_base);
            max_process = sint (if cmdfifo_threshold rush \<noteq> 0 then cmdfifo_threshold rush
                                else cmdfifo_entry_count rush);
            rush1 = cmdfifo_loop K cmdfifo_base cmdfifo_top cmdfifo_size max_process rush 0
        in if cmdfifo_entry_count rush1 < cmdfifo_threshold rush1
           then rush1\<lparr>status := status rush1 AND NOT (push_bit 16 1)\<rparr>
           else rush1)"

definition voodoo_rush_cmdfifo_write ::
  "voodoo_regs \<Rightarrow> voodoo_rush_t \<Rightarrow> u32 \<Rightarrow> u32 \<Rightarrow> voodoo_rush_t" where
  "voodoo_rush_cmdfifo_write K rush addr val =
     (if \<not> cmdfifo_enabled rush then rush
      else
        let cmdfifo_base = push_bit 12 (cmdfifo_bottom_page rush);
            cmdfifo_top = push_bit 12 (cmdfifo_top_page rush);
            offset = addr - cmdfifo_base
        in if addr < cmdfifo_base \<or> addr \<ge> cmdfifo_top then rush
           else if offset AND 7 = 0 then
             rush\<lparr>puma_fb := write32 (puma_fb rush) (addr AND puma_fb_mask rush) val\<rparr>
           else if offset AND 7 = 4 then
             (let rush1 = rush\<lparr>puma_fb := write32 (puma_fb rush) (addr AND puma_fb_mask rush) val,
                              cmdfifo_entry_count := cmdfifo_entry_count rush + 1\<rparr>
              in if cmdfifo_entry_count rush1 > 0 then voodoo_rush_process_cmdfifo K rush1
                 else rush1)
           else rush)"

subsection \<open>PUMA aperture reads\<close>

text \<open>
  \<^verbatim>\<open>voodoo_rush_puma_read\<close>.  The sign extension of the register branch,
  \<^verbatim>\<open>(int32_t)(ret << 8) >> 8\<close>, is a left shift of the unsigned value and an arithmetic
  right shift of the signed one.
\<close>

definition voodoo_rush_puma_read :: "u32 \<Rightarrow> voodoo_rush_t \<Rightarrow> u32" where
  "voodoo_rush_puma_read addr rush =
     (if \<not> enabled rush then 0
      else
        let fb_end = puma_fb_size rush;
            reg_start = (if puma_mode_8mb rush then SST96_PUMA_REG_START
                         else SST96_PUMA_REG_START_4MB);
            reg_end = reg_start + (if puma_mode_8mb rush then SST96_PUMA_REG_SIZE
                                   else SST96_PUMA_REG_SIZE_4MB);
            tex_start = (if puma_mode_8mb rush then SST96_PUMA_TEX_START
                         else SST96_PUMA_TEX_START_4MB);
            tex_end = tex_start + puma_tex_size rush
        in if addr < fb_end then read32 (puma_fb rush) (addr AND puma_fb_mask rush)
           else if addr \<ge> reg_start \<and> addr < reg_end then
             (let reg = puma_addr_to_reg addr (puma_mode_8mb rush);
                  ret = voodoo_rush_reg_read rush reg
              in if reg \<ge> SST96_DRDX \<and> reg \<le> SST96_DADY
                 then signed_drop_bit 8 (push_bit 8 ret)
                 else ret)
           else if addr \<ge> tex_start \<and> addr < tex_end then
             (let tex_offset = addr - tex_start
              in if tex_offset < puma_tex_size rush
                 then read32 (puma_tex rush) (tex_offset AND NOT 3)
                 else 0)
           else 0)"

subsection \<open>PUMA aperture writes and the THP port\<close>

text \<open>
  \<^verbatim>\<open>voodoo_rush_puma_write\<close>; the flush of the rendering engine's texture cache after a
  texture write has no effect on the device and is left out.  \<^verbatim>\<open>voodoo_rush_thp_read\<close>
  returns the value read and the device with the grant flag set.
\<close>

definition voodoo_rush_puma_write ::
  "voodoo_regs \<Rightarrow> u32 \<Rightarrow> u32 \<Rightarrow> voodoo_rush_t \<Rightarrow> voodoo_rush_t" where
  "voodoo_rush_puma_write K addr val rush =
     (if \<not> enabled rush then rush
      else
        let fb_end = puma_fb_size rush;
            reg_start = (if puma_mode_8mb rush then SST96_PUMA_REG_START
                         else SST96_PUMA_REG_START_4MB);
            reg_end = reg_start + (if puma_mode_8mb rush then SST96_PUMA_REG_SIZE
                                   else SST96_PUMA_REG_SIZE_4MB);
            tex_start = (if puma_mode_8mb rush then SST96_PUMA_TEX_START
                         else SST96_PUMA_TEX_START_4MB);
            tex_end = tex_start + puma_tex_size rush
        in if addr < fb_end then
             (let cmdfifo_base = push_bit 12 (cmdfifo_bottom_page rush);
                  cmdfifo_top = push_bit 12 (cmdfifo_top_page rush)
              in if cmdfifo_enabled rush \<and> addr \<ge> cmdfifo_base \<and> addr < cmdfifo_top
                 then voodoo_rush_cmdfifo_write K rush addr val
                 else rush\<lparr>puma_fb := write32 (puma_fb rush)
                                (addr AND puma_fb_mask rush AND NOT 3) val\<rparr>)
           else if addr \<ge> reg_start \<and> addr < reg_end then
             voodoo_rush_reg_write K rush (puma_addr_to_reg addr (puma_mode_8mb rush)) val
           else if addr \<ge> tex_start \<and> addr < tex_end then
             (let tex_offset = addr - tex_start
              in if tex_offset < puma_tex_size rush
                 then rush\<lparr>puma_tex := write32 (puma_tex rush) (tex_offset AND NOT 3) val\<rparr>
                 else rush)
           else rush)"

definition voodoo_rush_thp_write ::
  "voodoo_regs \<Rightarrow> voodoo_rush_t \<Rightarrow> u32 \<Rightarrow> u32 \<Rightarrow> voodoo_rush_t" where
  "voodoo_rush_thp_write K rush addr val =
     (if \<not> enabled rush then rush
      else
        let rush1 = voodoo_rush_puma_write K addr val rush
        in if addr < puma_fb_size rush1 then rush1\<lparr>puma_req := True\<rparr> else rush1)"

definition voodoo_rush_thp_read :: "voodoo_rush_t \<Rightarrow> u32 \<Rightarrow> u32 \<times> voodoo_rush_t" where
  "voodoo_rush_thp_read rush addr =
     (if \<not> enabled rush then (0, rush)
      else
        let ret = voodoo_rush_puma_read addr rush
        in (ret, if addr < puma_fb_size rush then rush\<lparr>puma_gnt := True\<rparr> else rush))"

subsection \<open>Sets of registers and states used in the statements\<close>

text \<open>
  The registers that \<^verbatim>\<open>voodoo_rush_reg_read\<close> computes from fields that
  \<^verbatim>\<open>voodoo_rush_reset\<close> does not assign: the version register, the five pixel counters,
  the init registers 4 and 5, and the buffer-setup and clip mirrors.
\<close>

definition computed_reads_not_reset :: "u32 list" where
  "computed_reads_not_reset =
     [SST96_FBIJR_VERSION, SST96_FBI_PIXELS_IN, SST96_FBI_CHROMA_FAIL, SST96_FBI_ZFUNC_FAIL,
      SST96_FBI_AFUNC_FAIL, SST96_FBI_PIXELS_OUT, SST96_FBIJR_INIT4, SST96_FBIJR_INIT5,
      SST96_COL_BUFFER_SETUP, SST96_AUX_BUFFER_SETUP, SST96_CLIP_LEFT_RIGHT0,
      SST96_CLIP_TOP_BOTTOM0, SST96_CLIP_LEFT_RIGHT1, SST96_CLIP_TOP_BOTTOM1]"

text \<open>
  The frame-buffer size and mask as \<^verbatim>\<open>voodoo_rush_init\<close> sets them for the device's
  mode; no function of the device assigns them afterwards.
\<close>

definition puma_layout_ok :: "voodoo_rush_t \<Rightarrow> bool" where
  "puma_layout_ok rush =
     (puma_fb_size rush =
        (if puma_mode_8mb rush then SST96_PUMA_FB_SIZE else SST96_PUMA_FB_SIZE_4MB) \<and>
      puma_fb_mask rush = puma_fb_size rush - 1)"

text \<open>The range of the pending-swap counter.\<close>

definition swap_pending_in_range :: "voodoo_rush_t \<Rightarrow> bool" where
  "swap_pending_in_range rush =
     (0 \<le> sint (swap_pending rush) \<and> sint (swap_pending rush) \<le> 7)"

section \<open>Verified properties\<close>

subsection \<open>Words\<close>

lemma bit23_test: "(v AND 0x800000 \<noteq> 0) = bit (v::u32) 23"
proof -
  have "(0x800000::u32) = push_bit 23 1" by simp
  then show ?thesis
    by (simp only: bit_iff_and_push_bit_not_eq_0)
qed

lemma nat_eq_23: "23 \<le> n \<Longrightarrow> \<not> 24 \<le> (n::nat) \<Longrightarrow> n = 23"
  by arith

lemma sext24_bits:
  "(if v AND 0x800000 \<noteq> 0 then v OR 0xff000000 else v AND 0xffffff) =
     signed_take_bit 23 (v::u32)"
proof -
  have m: "(0xffffff::u32) = mask 24" by (simp add: mask_eq_exp_minus_1)
  have n: "(0xff000000::u32) = NOT (mask 24)" by (simp add: mask_eq_exp_minus_1)
  show ?thesis
    unfolding bit23_test m n
    by (rule bit_word_eqI) (auto simp add: bit_simps not_less min_def dest: nat_eq_23)
qed

lemma shl8_sar8: "signed_drop_bit 8 (push_bit 8 (x::u32)) = signed_take_bit 23 x"
  by (rule bit_word_eqI) (auto simp add: bit_simps not_less min_def dest: nat_eq_23)

lemma sint_sext24: "sint (signed_take_bit 23 (v::u32)) = sint (ucast v :: 24 word)"
  by (simp add: bit_eq_iff bit_simps min_def)

lemma sint_sar12: "sint (signed_drop_bit 12 (x::u32)) = sint x div 2 ^ 12"
  by (simp add: drop_bit_eq_div sint_signed_drop_bit_eq)

lemma sint_incr:
  assumes "sint (x::u32) < 2 ^ 31 - 1"
  shows "sint (x + 1) = sint x + 1"
proof -
  have "- (2 ^ 31) \<le> sint x" using sint_ge [of x] by simp
  then have "signed_take_bit 31 (sint x + 1) = sint x + 1"
    using assms by (intro signed_take_bit_int_eq_self) simp_all
  then show ?thesis by (simp add: sint_word_ariths)
qed

lemma sint_decr:
  assumes "0 < sint (x::u32)"
  shows "sint (x - 1) = sint x - 1"
proof -
  have "sint x < 2 ^ 31" using sint_lt [of x] by simp
  then have "signed_take_bit 31 (sint x - 1) = sint x - 1"
    using assms by (intro signed_take_bit_int_eq_self) simp_all
  then show ?thesis by (simp add: sint_word_ariths)
qed

subsection \<open>What FastFill and the triangle command leave alone\<close>

lemma fastfill_pixel_only_fb:
  "fastfill_pixel a b c d e f x rush =
     rush\<lparr>puma_fb := puma_fb (fastfill_pixel a b c d e f x rush)\<rparr>"
  by (simp add: fastfill_pixel_def Let_def)

lemma fold_only_fb:
  assumes "\<And>x r. f x r = r\<lparr>puma_fb := puma_fb (f x r)\<rparr>"
  shows "fold f xs rush = rush\<lparr>puma_fb := puma_fb (fold f xs rush)\<rparr>"
proof (induction xs arbitrary: rush)
  case Nil
  show ?case by simp
next
  case (Cons x xs)
  have "fold f (x # xs) rush = fold f xs (f x rush)" by simp
  also have "\<dots> = (f x rush)\<lparr>puma_fb := puma_fb (fold f xs (f x rush))\<rparr>"
    by (rule Cons.IH)
  also have "\<dots> = (rush\<lparr>puma_fb := puma_fb (f x rush)\<rparr>)
                     \<lparr>puma_fb := puma_fb (fold f xs (f x rush))\<rparr>"
    using assms [of x rush] by simp
  finally show ?case by simp
qed

lemma fastfill_row_only_fb:
  "fastfill_row a b c d e f g h i j k l y rush =
     rush\<lparr>puma_fb := puma_fb (fastfill_row a b c d e f g h i j k l y rush)\<rparr>"
  unfolding fastfill_row_def Let_def
  by (rule fold_only_fb) (rule fastfill_pixel_only_fb)

lemma fastfill_only_fb:
  "voodoo_rush_fastfill K rush = rush\<lparr>puma_fb := puma_fb (voodoo_rush_fastfill K rush)\<rparr>"
proof (cases "enabled rush")
  case True
  then show ?thesis
    unfolding voodoo_rush_fastfill_def Let_def
    by (simp only: if_False not_True_eq_False) (rule fold_only_fb, rule fastfill_row_only_fb)
next
  case False
  then show ?thesis by (simp add: voodoo_rush_fastfill_def)
qed

lemma regs_fastfill: "regs (voodoo_rush_fastfill K rush) = regs rush"
  by (subst fastfill_only_fb) simp

lemma regs_render_triangle: "regs (voodoo_rush_render_triangle rush) = regs rush"
  by (simp add: voodoo_rush_render_triangle_def Let_def split: option.splits)

subsection \<open>The raw register array\<close>

text \<open>
  Claim C4.  For every register index below 256 and every value, after
  \<^verbatim>\<open>voodoo_rush_reg_write\<close> the raw slot \<^verbatim>\<open>regs[N]\<close> holds the written value, whatever
  side effect or typed mirror the register has (the triangle and FastFill commands
  included).
\<close>

theorem reg_write_raw_visible:
  "reg < 256 \<Longrightarrow> regs (voodoo_rush_reg_write K rush reg val) (unat reg) = val"
proof -
  assume "reg < 256"
  then have "\<not> 256 \<le> reg" by (simp add: not_le)
  then show ?thesis
    by (simp add: sst96 voodoo_rush_reg_write_def Let_def regs_fastfill regs_render_triangle)
qed

theorem reg_write_raw_visible_witness:
  "(0x51 :: u32) < 256 \<and>
   regs (voodoo_rush_reg_write \<lparr>FBZ_RGB_WMASK = 0x200, FBZ_DEPTH_WMASK = 0x400\<rparr>
           (voodoo_rush_init True) 0x51 0xFFFFFFFF) (unat (0x51 :: u32)) = 0xFFFFFFFF"
  using reg_write_raw_visible [of "0x51" "\<lparr>FBZ_RGB_WMASK = 0x200, FBZ_DEPTH_WMASK = 0x400\<rparr>"
      "voodoo_rush_init True" "0xFFFFFFFF"]
  by simp

subsection \<open>Masked mode registers\<close>

text \<open>
  Claim C2, as stated, fails at the fog-mode register: the write stores the raw value in
  \<^verbatim>\<open>regs\<close> and the masked value in \<^verbatim>\<open>fog_mode\<close>, and \<^verbatim>\<open>voodoo_rush_reg_read\<close> has
  no case for the register, so the read returns the raw value.  After writing
  \<open>0xFFFFFFFF\<close> the register does not read back \<open>0x3F\<close>.
\<close>

theorem masked_readback_counterexample:
  "voodoo_rush_reg_read
     (voodoo_rush_reg_write \<lparr>FBZ_RGB_WMASK = 0x200, FBZ_DEPTH_WMASK = 0x400\<rparr>
        (voodoo_rush_init True) SST96_FOG_MODE 0xFFFFFFFF) SST96_FOG_MODE \<noteq> 0x3F"
  by (simp add: sst96 voodoo_rush_reg_read_def voodoo_rush_reg_write_def Let_def)

text \<open>
  Claim C2, amended.  Writing any 32-bit value to a register with a documented mask
  stores the value with exactly that mask in the register's typed field (fog mode 6
  bits, colour path 28, FBZ mode 20, chroma key 24, chroma range 29, aux buffer setup
  31).  \<^verbatim>\<open>voodoo_rush_reg_read\<close> of the same index returns the masked value for the aux
  buffer setup register, whose read is computed from the field, and the raw written
  value for the other five.
\<close>

theorem masked_mirror_raw_readback:
  "fog_mode (voodoo_rush_reg_write K rush SST96_FOG_MODE val) = val AND 0x3f \<and>
   voodoo_rush_reg_read (voodoo_rush_reg_write K rush SST96_FOG_MODE val) SST96_FOG_MODE = val \<and>
   fbz_color_path (voodoo_rush_reg_write K rush SST96_FBZ_COLOR_PATH val) = val AND 0x0fffffff \<and>
   voodoo_rush_reg_read (voodoo_rush_reg_write K rush SST96_FBZ_COLOR_PATH val)
     SST96_FBZ_COLOR_PATH = val \<and>
   fbz_mode (voodoo_rush_reg_write K rush SST96_FBZ_MODE val) = val AND 0xfffff \<and>
   voodoo_rush_reg_read (voodoo_rush_reg_write K rush SST96_FBZ_MODE val) SST96_FBZ_MODE = val \<and>
   chroma_key (voodoo_rush_reg_write K rush SST96_CHROMA_KEY val) = val AND 0xffffff \<and>
   voodoo_rush_reg_read (voodoo_rush_reg_write K rush SST96_CHROMA_KEY val) SST96_CHROMA_KEY
     = val \<and>
   chroma_range (voodoo_rush_reg_write K rush SST96_CHROMA_RANGE val) = val AND 0x1fffffff \<and>
   voodoo_rush_reg_read (voodoo_rush_reg_write K rush SST96_CHROMA_RANGE val)
     SST96_CHROMA_RANGE = val \<and>
   aux_buffer_setup (voodoo_rush_reg_write K rush SST96_AUX_BUFFER_SETUP val) =
     val AND 0x7fffffff \<and>
   voodoo_rush_reg_read (voodoo_rush_reg_write K rush SST96_AUX_BUFFER_SETUP val)
     SST96_AUX_BUFFER_SETUP = val AND 0x7fffffff"
  by (simp add: sst96 voodoo_rush_reg_read_def voodoo_rush_reg_write_def Let_def)

theorem masked_mirror_raw_readback_witness:
  "fog_mode (voodoo_rush_reg_write \<lparr>FBZ_RGB_WMASK = 0x200, FBZ_DEPTH_WMASK = 0x400\<rparr>
               (voodoo_rush_init True) SST96_FOG_MODE 0xFFFFFFFF) = 0x3f \<and>
   voodoo_rush_reg_read
     (voodoo_rush_reg_write \<lparr>FBZ_RGB_WMASK = 0x200, FBZ_DEPTH_WMASK = 0x400\<rparr>
        (voodoo_rush_init True) SST96_FOG_MODE 0xFFFFFFFF) SST96_FOG_MODE = 0xFFFFFFFF \<and>
   voodoo_rush_reg_read
     (voodoo_rush_reg_write \<lparr>FBZ_RGB_WMASK = 0x200, FBZ_DEPTH_WMASK = 0x400\<rparr>
        (voodoo_rush_init True) SST96_AUX_BUFFER_SETUP 0xFFFFFFFF) SST96_AUX_BUFFER_SETUP
     = 0x7FFFFFFF"
  using masked_mirror_raw_readback [of "\<lparr>FBZ_RGB_WMASK = 0x200, FBZ_DEPTH_WMASK = 0x400\<rparr>"
      "voodoo_rush_init True" "0xFFFFFFFF"]
  by simp

subsection \<open>Reset\<close>

text \<open>
  Claim C3, as stated, fails: after the reset of a freshly initialised device the
  version register reads \<open>0x00010201\<close>, not zero; and a buffer-setup value or an init
  register 4 written before the reset is read back after it, since the reset assigns
  neither the mirror nor the last two init registers.
\<close>

theorem reset_readback_counterexample:
  "voodoo_rush_reg_read (voodoo_rush_reset (voodoo_rush_init True)) SST96_FBIJR_VERSION
     = 0x00010201 \<and>
   voodoo_rush_reg_read
     (voodoo_rush_reset
        (voodoo_rush_reg_write \<lparr>FBZ_RGB_WMASK = 0x200, FBZ_DEPTH_WMASK = 0x400\<rparr>
           (voodoo_rush_init True) SST96_COL_BUFFER_SETUP 5)) SST96_COL_BUFFER_SETUP = 5 \<and>
   voodoo_rush_reg_read
     (voodoo_rush_reset
        (voodoo_rush_reg_write \<lparr>FBZ_RGB_WMASK = 0x200, FBZ_DEPTH_WMASK = 0x400\<rparr>
           (voodoo_rush_init True) SST96_FBIJR_INIT4 7)) SST96_FBIJR_INIT4 = 7"
  by (simp add: sst96 voodoo_rush_reg_read_def voodoo_rush_reset_def voodoo_rush_reg_write_def
      voodoo_rush_init_def rush_calloc_def Let_def)

text \<open>
  Claim C3, amended.  After a reset, every register index reads back zero through
  \<^verbatim>\<open>voodoo_rush_reg_read\<close>, except that the init registers 0 to 3 read back their
  defaults, and except the registers of \<open>computed_reads_not_reset\<close>, about which nothing
  is said but that the version register still reads the device's version.  The raw
  array and the triangle parameters are zero, the command FIFO is disabled with entry
  count and read pointer zero, the swap counter and swap request are cleared, and the
  frame-buffer and texture memories and their sizes are as before.
\<close>

theorem reset_zeroes_and_reapplies_defaults:
  "reg \<notin> set computed_reads_not_reset \<Longrightarrow>
   voodoo_rush_reg_read (voodoo_rush_reset rush) reg =
     (if reg = SST96_FBIJR_INIT0 then 0x0000f201
      else if reg = SST96_FBIJR_INIT1 then 0x01800000
      else if reg = SST96_FBIJR_INIT2 then 0x00070d2d
      else if reg = SST96_FBIJR_INIT3 then 0x00180600
      else 0) \<and>
   voodoo_rush_reg_read (voodoo_rush_reset rush) SST96_FBIJR_VERSION = fbijr_version rush \<and>
   regs (voodoo_rush_reset rush) = (\<lambda>_. 0) \<and>
   triangle (voodoo_rush_reset rush) = triangle_zero \<and>
   \<not> cmdfifo_enabled (voodoo_rush_reset rush) \<and>
   cmdfifo_entry_count (voodoo_rush_reset rush) = 0 \<and>
   cmdfifo_read_ptr (voodoo_rush_reset rush) = 0 \<and>
   swap_pending (voodoo_rush_reset rush) = 0 \<and>
   \<not> swap_req (voodoo_rush_reset rush) \<and>
   puma_fb (voodoo_rush_reset rush) = puma_fb rush \<and>
   puma_fb_size (voodoo_rush_reset rush) = puma_fb_size rush \<and>
   puma_tex (voodoo_rush_reset rush) = puma_tex rush \<and>
   puma_tex_size (voodoo_rush_reset rush) = puma_tex_size rush"
  by (simp add: sst96 voodoo_rush_reg_read_def voodoo_rush_reset_def
      computed_reads_not_reset_def)

theorem reset_zeroes_and_reapplies_defaults_witness:
  "SST96_FOG_MODE \<notin> set computed_reads_not_reset \<and>
   voodoo_rush_reg_read
     (voodoo_rush_reg_write \<lparr>FBZ_RGB_WMASK = 0x200, FBZ_DEPTH_WMASK = 0x400\<rparr>
        (voodoo_rush_init True) SST96_FOG_MODE 0x15) SST96_FOG_MODE = 0x15 \<and>
   voodoo_rush_reg_read
     (voodoo_rush_reset
        (voodoo_rush_reg_write \<lparr>FBZ_RGB_WMASK = 0x200, FBZ_DEPTH_WMASK = 0x400\<rparr>
           (voodoo_rush_init True) SST96_FOG_MODE 0x15)) SST96_FOG_MODE = 0"
proof -
  have h: "SST96_FOG_MODE \<notin> set computed_reads_not_reset"
    by (simp add: sst96 computed_reads_not_reset_def)
  have w: "voodoo_rush_reg_read
     (voodoo_rush_reg_write \<lparr>FBZ_RGB_WMASK = 0x200, FBZ_DEPTH_WMASK = 0x400\<rparr>
        (voodoo_rush_init True) SST96_FOG_MODE 0x15) SST96_FOG_MODE = 0x15"
    by (simp add: sst96 voodoo_rush_reg_read_def voodoo_rush_reg_write_def Let_def)
  from reset_zeroes_and_reapplies_defaults [OF h] h w show ?thesis
    by (simp add: sst96)
qed

subsection \<open>Colour gradients\<close>

lemma gradient_writes:
  "triangle (voodoo_rush_reg_write K rush SST96_DRDX val) =
     (triangle rush)\<lparr>dRdX := signed_take_bit 23 val\<rparr>"
  "triangle (voodoo_rush_reg_write K rush SST96_DGDX val) =
     (triangle rush)\<lparr>dGdX := signed_take_bit 23 val\<rparr>"
  "triangle (voodoo_rush_reg_write K rush SST96_DBDX val) =
     (triangle rush)\<lparr>dBdX := signed_take_bit 23 val\<rparr>"
  "triangle (voodoo_rush_reg_write K rush SST96_DADX val) =
     (triangle rush)\<lparr>dAdX := signed_take_bit 23 val\<rparr>"
  "triangle (voodoo_rush_reg_write K rush SST96_DRDY val) =
     (triangle rush)\<lparr>dRdY := signed_take_bit 23 val\<rparr>"
  "triangle (voodoo_rush_reg_write K rush SST96_DGDY val) =
     (triangle rush)\<lparr>dGdY := signed_take_bit 23 val\<rparr>"
  "triangle (voodoo_rush_reg_write K rush SST96_DBDY val) =
     (triangle rush)\<lparr>dBdY := signed_take_bit 23 val\<rparr>"
  "triangle (voodoo_rush_reg_write K rush SST96_DADY val) =
     (triangle rush)\<lparr>dAdY := signed_take_bit 23 val\<rparr>"
  unfolding sext24_bits [symmetric]
  by (simp_all add: sst96 voodoo_rush_reg_write_def Let_def)

lemma gradient_write_state:
  "voodoo_rush_reg_write K rush SST96_DRDX val =
     rush\<lparr>regs := (regs rush)(0x09 := val),
          triangle := (triangle rush)\<lparr>dRdX := signed_take_bit 23 val\<rparr>\<rparr>"
  unfolding sext24_bits [symmetric]
  by (simp add: sst96 voodoo_rush_reg_write_def Let_def)

lemma params_gradients:
  "params_dRdX (sst96_to_voodoo_params rush) = signed_drop_bit 12 (dRdX (triangle rush))"
  "params_dGdX (sst96_to_voodoo_params rush) = signed_drop_bit 12 (dGdX (triangle rush))"
  "params_dBdX (sst96_to_voodoo_params rush) = signed_drop_bit 12 (dBdX (triangle rush))"
  "params_dAdX (sst96_to_voodoo_params rush) = signed_drop_bit 12 (dAdX (triangle rush))"
  "params_dRdY (sst96_to_voodoo_params rush) = signed_drop_bit 12 (dRdY (triangle rush))"
  "params_dGdY (sst96_to_voodoo_params rush) = signed_drop_bit 12 (dGdY (triangle rush))"
  "params_dBdY (sst96_to_voodoo_params rush) = signed_drop_bit 12 (dBdY (triangle rush))"
  "params_dAdY (sst96_to_voodoo_params rush) = signed_drop_bit 12 (dAdY (triangle rush))"
  by (simp_all add: sst96_to_voodoo_params_def Let_def)

text \<open>
  Claim C6.  A write to one of the eight colour-gradient registers stores the 24-bit
  two's-complement reading of the written value: with bit 23 set the top byte is set,
  with bit 23 clear the value is masked to 24 bits.  The translator hands the stored
  gradient, shifted right arithmetically by 12, to the rendering engine.  Writing
  \<open>0x800000\<close> to the dR/dX register stores \<open>-8388608\<close>, and the engine gets
  \<open>-2048\<close>, a negative value.
\<close>

theorem color_gradient_sign_extension:
  "dRdX (triangle (voodoo_rush_reg_write K rush SST96_DRDX val)) =
     (if bit val 23 then val OR 0xff000000 else val AND 0xffffff) \<and>
   sint (dRdX (triangle (voodoo_rush_reg_write K rush SST96_DRDX val))) =
     sint (ucast val :: 24 word) \<and>
   sint (dGdX (triangle (voodoo_rush_reg_write K rush SST96_DGDX val))) =
     sint (ucast val :: 24 word) \<and>
   sint (dBdX (triangle (voodoo_rush_reg_write K rush SST96_DBDX val))) =
     sint (ucast val :: 24 word) \<and>
   sint (dAdX (triangle (voodoo_rush_reg_write K rush SST96_DADX val))) =
     sint (ucast val :: 24 word) \<and>
   sint (dRdY (triangle (voodoo_rush_reg_write K rush SST96_DRDY val))) =
     sint (ucast val :: 24 word) \<and>
   sint (dGdY (triangle (voodoo_rush_reg_write K rush SST96_DGDY val))) =
     sint (ucast val :: 24 word) \<and>
   sint (dBdY (triangle (voodoo_rush_reg_write K rush SST96_DBDY val))) =
     sint (ucast val :: 24 word) \<and>
   sint (dAdY (triangle (voodoo_rush_reg_write K rush SST96_DADY val))) =
     sint (ucast val :: 24 word) \<and>
   sint (params_dRdX (sst96_to_voodoo_params (voodoo_rush_reg_write K rush SST96_DRDX val))) =
     sint (ucast val :: 24 word) div 2 ^ 12 \<and>
   sint (dRdX (triangle (voodoo_rush_reg_write K rush SST96_DRDX 0x800000))) = - 8388608 \<and>
   sint (params_dRdX (sst96_to_voodoo_params (voodoo_rush_reg_write K rush SST96_DRDX 0x800000)))
     = - 2048"
proof -
  have raw: "signed_take_bit 23 val = (if bit val 23 then val OR 0xff000000 else val AND 0xffffff)"
    unfolding sext24_bits [symmetric] bit23_test ..
  have c: "sint (ucast (0x800000 :: u32) :: 24 word) = - 8388608" by simp
  show ?thesis
    by (simp add: gradient_writes params_gradients sint_sext24 sint_sar12 c) (simp add: raw)
qed

theorem color_gradient_sign_extension_witness:
  "sint (dGdX (triangle (voodoo_rush_reg_write \<lparr>FBZ_RGB_WMASK = 0x200, FBZ_DEPTH_WMASK = 0x400\<rparr>
                            (voodoo_rush_init True) SST96_DGDX 0xFFFFFF))) = - 1 \<and>
   sint (dGdX (triangle (voodoo_rush_reg_write \<lparr>FBZ_RGB_WMASK = 0x200, FBZ_DEPTH_WMASK = 0x400\<rparr>
                            (voodoo_rush_init True) SST96_DGDX 0x12345678))) = 0x345678"
  using color_gradient_sign_extension [of "\<lparr>FBZ_RGB_WMASK = 0x200, FBZ_DEPTH_WMASK = 0x400\<rparr>"
      "voodoo_rush_init True" "0xFFFFFF"]
    color_gradient_sign_extension [of "\<lparr>FBZ_RGB_WMASK = 0x200, FBZ_DEPTH_WMASK = 0x400\<rparr>"
      "voodoo_rush_init True" "0x12345678"]
  by simp

subsection \<open>The pending-swap counter\<close>

lemma swappend_write:
  "swap_pending (voodoo_rush_reg_write K rush SST96_SWAPPEND_CMD val) =
     (if 7 <s swap_pending rush + 1 then 7 else swap_pending rush + 1)"
  by (simp add: sst96 voodoo_rush_reg_write_def Let_def)

lemma swappend_step:
  assumes "sint (swap_pending rush) < 2 ^ 31 - 1"
  shows "sint (swap_pending (voodoo_rush_reg_write K rush SST96_SWAPPEND_CMD val)) =
           min 7 (sint (swap_pending rush) + 1)"
  using sint_incr [OF assms] by (simp add: swappend_write word_sless_alt min_def)

lemma swappend_fold:
  "sint (swap_pending rush) < 2 ^ 31 - 1 \<Longrightarrow>
   sint (swap_pending (fold (\<lambda>v r. voodoo_rush_reg_write K r SST96_SWAPPEND_CMD v) vals rush)) =
     (if vals = [] then sint (swap_pending rush)
      else min 7 (sint (swap_pending rush) + int (length vals)))"
proof (induction vals arbitrary: rush)
  case Nil
  show ?case by simp
next
  case (Cons v vals)
  let ?r1 = "voodoo_rush_reg_write K rush SST96_SWAPPEND_CMD v"
  have s1: "sint (swap_pending ?r1) = min 7 (sint (swap_pending rush) + 1)"
    using Cons.prems by (rule swappend_step)
  then have "sint (swap_pending ?r1) < 2 ^ 31 - 1" by simp
  from Cons.IH [OF this] show ?case
    by (simp add: s1 min_def)
qed

text \<open>
  Claim C8.  A write to the swap-append command register increments the pending-swap
  counter and clamps it at 7, and ten such writes in a row (with any written values)
  leave the counter at exactly 7; after at least one write it is never above 7.  The
  counter is a C \<^verbatim>\<open>int\<close>: the statement holds for every starting value from \<open>-3\<close> up
  to the largest but one, which covers every value the device gives the counter (its
  range is 0 to 7; at the largest \<^verbatim>\<open>int\<close> the increment overflows).
\<close>

theorem swappend_saturates_at_7:
  "- 3 \<le> sint (swap_pending rush) \<Longrightarrow> sint (swap_pending rush) < 2 ^ 31 - 1 \<Longrightarrow>
   length vals = 10 \<Longrightarrow>
   sint (swap_pending (voodoo_rush_reg_write K rush SST96_SWAPPEND_CMD val)) =
     min 7 (sint (swap_pending rush) + 1) \<and>
   swap_pending (fold (\<lambda>v r. voodoo_rush_reg_write K r SST96_SWAPPEND_CMD v) vals rush) = 7 \<and>
   (\<forall>ws. ws \<noteq> [] \<longrightarrow>
      sint (swap_pending (fold (\<lambda>v r. voodoo_rush_reg_write K r SST96_SWAPPEND_CMD v) ws rush))
        \<le> 7)"
proof (intro conjI allI impI)
  assume a: "- 3 \<le> sint (swap_pending rush)" and b: "sint (swap_pending rush) < 2 ^ 31 - 1"
    and l: "length vals = 10"
  let ?f = "\<lambda>v r. voodoo_rush_reg_write K r SST96_SWAPPEND_CMD v"
  show "sint (swap_pending (voodoo_rush_reg_write K rush SST96_SWAPPEND_CMD val)) =
          min 7 (sint (swap_pending rush) + 1)"
    using b by (rule swappend_step)
  have "vals \<noteq> []" using l by auto
  then have "sint (swap_pending (fold ?f vals rush)) = 7"
    using a l by (simp add: swappend_fold [OF b])
  then have "sint (swap_pending (fold ?f vals rush)) = sint (7 :: u32)"
    by simp
  then show "swap_pending (fold ?f vals rush) = 7"
    by (rule signed_word_eqI)
  fix ws :: "u32 list"
  assume "ws \<noteq> []"
  then show "sint (swap_pending (fold ?f ws rush)) \<le> 7"
    by (simp add: swappend_fold [OF b])
qed

theorem swappend_saturates_at_7_witness:
  "swap_pending
     (fold (\<lambda>v r. voodoo_rush_reg_write \<lparr>FBZ_RGB_WMASK = 0x200, FBZ_DEPTH_WMASK = 0x400\<rparr> r
                     SST96_SWAPPEND_CMD v)
        [0, 1, 2, 3, 4, 5, 6, 7, 8, 9] (voodoo_rush_init True)) = 7"
  using swappend_saturates_at_7 [of "voodoo_rush_init True" "[0, 1, 2, 3, 4, 5, 6, 7, 8, 9]"
      "\<lparr>FBZ_RGB_WMASK = 0x200, FBZ_DEPTH_WMASK = 0x400\<rparr>" 0]
  by (simp add: voodoo_rush_init_def rush_calloc_def)

text \<open>
  The counter stays in its range from 0 to 7: the range holds after
  \<^verbatim>\<open>voodoo_rush_init\<close> and after a reset, and register writes, the vsync callback, the
  drain of the command FIFO and PUMA writes keep it.
\<close>

lemma swap_pending_fastfill: "swap_pending (voodoo_rush_fastfill K rush) = swap_pending rush"
  by (subst fastfill_only_fb) simp

lemma swap_pending_render_triangle:
  "swap_pending (voodoo_rush_render_triangle rush) = swap_pending rush"
  by (simp add: voodoo_rush_render_triangle_def Let_def split: option.splits)

lemma swap_pending_reg_write:
  "swap_pending (voodoo_rush_reg_write K rush reg val) =
     (if reg = SST96_SWAPBUFFER_CMD
      then (if 0 <s swap_pending rush then swap_pending rush - 1 else swap_pending rush)
      else if reg = SST96_SWAPPEND_CMD
      then (if 7 <s swap_pending rush + 1 then 7 else swap_pending rush + 1)
      else swap_pending rush)"
  by (simp add: sst96 voodoo_rush_reg_write_def Let_def swap_pending_fastfill
      swap_pending_render_triangle)

lemma swap_pending_in_range_reg_write:
  assumes "swap_pending_in_range rush"
  shows "swap_pending_in_range (voodoo_rush_reg_write K rush reg val)"
proof -
  have lt: "sint (swap_pending rush) < 2 ^ 31 - 1"
    using assms by (simp add: swap_pending_in_range_def)
  show ?thesis
    using assms sint_incr [OF lt] sint_decr [of "swap_pending rush"]
    by (auto simp add: swap_pending_in_range_def swap_pending_reg_write word_sless_alt)
qed

lemma swap_pending_in_range_init: "swap_pending_in_range (voodoo_rush_init m)"
  by (simp add: swap_pending_in_range_def voodoo_rush_init_def rush_calloc_def)

lemma swap_pending_in_range_reset: "swap_pending_in_range (voodoo_rush_reset rush)"
  by (simp add: swap_pending_in_range_def voodoo_rush_reset_def)

lemma swap_pending_in_range_vsync:
  assumes "swap_pending_in_range rush"
  shows "swap_pending_in_range (voodoo_rush_vsync_callback rush)"
  using assms sint_decr [of "swap_pending rush"]
  by (auto simp add: swap_pending_in_range_def voodoo_rush_vsync_callback_def
      voodoo_rush_swap_buffers_def Let_def word_sless_alt)


lemma swap_pending_in_range_grouped_write:
  "swap_pending_in_range (fst s) \<Longrightarrow>
   swap_pending_in_range (fst (cmdfifo_grouped_write K base_addr data_mask i s))"
  by (simp add: cmdfifo_grouped_write_def Let_def swap_pending_in_range_reg_write)

lemma swap_pending_in_range_grouped_fold:
  "swap_pending_in_range (fst s) \<Longrightarrow>
   swap_pending_in_range (fst (fold (cmdfifo_grouped_write K base_addr data_mask) is s))"
  by (induction "is" arbitrary: s) (simp_all add: swap_pending_in_range_grouped_write)

lemma swap_pending_in_range_frame:
  "swap_pending_in_range (rush\<lparr>cmdfifo_read_ptr := p, cmdfifo_entry_count := c\<rparr>) =
     swap_pending_in_range rush"
  "swap_pending_in_range (rush\<lparr>puma_fb := m\<rparr>) = swap_pending_in_range rush"
  "swap_pending_in_range (rush\<lparr>puma_fb := m, cmdfifo_entry_count := c\<rparr>) =
     swap_pending_in_range rush"
  "swap_pending_in_range (rush\<lparr>status := st\<rparr>) = swap_pending_in_range rush"
  by (simp_all add: swap_pending_in_range_def)

lemma swap_pending_in_range_iter:
  assumes "swap_pending_in_range rush" and "cmdfifo_iter K b t sz rush = Some r"
  shows "swap_pending_in_range r"
  using assms swap_pending_in_range_grouped_fold [of "(rush, x)" for x]
  by (auto simp add: cmdfifo_iter_def Let_def swap_pending_in_range_frame
      swap_pending_in_range_reg_write split: if_splits)

lemma swap_pending_in_range_loop:
  "swap_pending_in_range rush \<Longrightarrow>
   swap_pending_in_range (cmdfifo_loop K b t sz maxp rush processed)"
proof (induction K b t sz maxp rush processed rule: cmdfifo_loop.induct)
  case (1 K b t sz maxp rush processed)
  show ?case
  proof (cases "0 < cmdfifo_entry_count rush \<and> processed < maxp")
    case False
    then show ?thesis using "1.prems" by (subst cmdfifo_loop.simps) auto
  next
    case True
    show ?thesis
    proof (cases "cmdfifo_iter K b t sz rush")
      case None
      then show ?thesis using True "1.prems" by (subst cmdfifo_loop.simps) simp
    next
      case (Some r)
      have "swap_pending_in_range r"
        using "1.prems" Some by (rule swap_pending_in_range_iter)
      then have "swap_pending_in_range (cmdfifo_loop K b t sz maxp r (processed + 1))"
        using True Some by (intro "1.IH") simp_all
      then show ?thesis using True Some by (subst cmdfifo_loop.simps) simp
    qed
  qed
qed

lemma swap_pending_in_range_process:
  "swap_pending_in_range rush \<Longrightarrow> swap_pending_in_range (voodoo_rush_process_cmdfifo K rush)"
  by (simp add: voodoo_rush_process_cmdfifo_def Let_def swap_pending_in_range_frame
      swap_pending_in_range_loop)

lemma swap_pending_in_range_cmdfifo_write:
  "swap_pending_in_range rush \<Longrightarrow>
   swap_pending_in_range (voodoo_rush_cmdfifo_write K rush addr val)"
  by (simp add: voodoo_rush_cmdfifo_write_def Let_def swap_pending_in_range_frame
      swap_pending_in_range_process)

lemma swap_pending_in_range_puma_write:
  "swap_pending_in_range rush \<Longrightarrow>
   swap_pending_in_range (voodoo_rush_puma_write K addr val rush)"
  by (simp add: voodoo_rush_puma_write_def Let_def swap_pending_in_range_frame
      swap_pending_in_range_cmdfifo_write swap_pending_in_range_reg_write)
    (simp add: swap_pending_in_range_def)

subsection \<open>The init registers 4 and 5\<close>

lemma fbijr_init4_write:
  "voodoo_rush_reg_write K rush SST96_FBIJR_INIT4 val =
     rush\<lparr>regs := (regs rush)(0x94 := val), fbijr_init := (fbijr_init rush)(4 := val)\<rparr>"
  by (simp add: sst96 voodoo_rush_reg_write_def Let_def)

lemma fbijr_init5_write:
  "voodoo_rush_reg_write K rush SST96_FBIJR_INIT5 val =
     rush\<lparr>regs := (regs rush)(0x95 := val), fbijr_init := (fbijr_init rush)(5 := val)\<rparr>"
  by (simp add: sst96 voodoo_rush_reg_write_def Let_def)

text \<open>
  Claim C9 against the code.  On a freshly initialised device, writing 5 to
  \<^verbatim>\<open>FBIJR_INIT4\<close> stores 5 in the init-register bank and leaves the entry count of the
  command FIFO at 0; writing 5 to \<^verbatim>\<open>FBIJR_INIT5\<close> stores 5 in the bank and leaves the
  read pointer at 0.  The statements that would set the entry count and the read
  pointer stand under labels that the group of the six init registers has already
  taken.
\<close>

theorem fbijr_init45_write_no_override:
  "cmdfifo_entry_count
     (voodoo_rush_reg_write \<lparr>FBZ_RGB_WMASK = 0x200, FBZ_DEPTH_WMASK = 0x400\<rparr>
        (voodoo_rush_init True) SST96_FBIJR_INIT4 5) = 0 \<and>
   voodoo_rush_reg_read
     (voodoo_rush_reg_write \<lparr>FBZ_RGB_WMASK = 0x200, FBZ_DEPTH_WMASK = 0x400\<rparr>
        (voodoo_rush_init True) SST96_FBIJR_INIT4 5) SST96_FBIJR_INIT4 = 5 \<and>
   cmdfifo_read_ptr
     (voodoo_rush_reg_write \<lparr>FBZ_RGB_WMASK = 0x200, FBZ_DEPTH_WMASK = 0x400\<rparr>
        (voodoo_rush_init True) SST96_FBIJR_INIT5 5) = 0 \<and>
   voodoo_rush_reg_read
     (voodoo_rush_reg_write \<lparr>FBZ_RGB_WMASK = 0x200, FBZ_DEPTH_WMASK = 0x400\<rparr>
        (voodoo_rush_init True) SST96_FBIJR_INIT5 5) SST96_FBIJR_INIT5 = 5"
  by (simp add: fbijr_init4_write fbijr_init5_write voodoo_rush_init_def rush_calloc_def)
    (simp add: sst96 voodoo_rush_reg_read_def)

subsection \<open>FastFill with both write masks clear\<close>

lemma fold_unchanged:
  assumes "\<And>x r. f x r = r"
  shows "fold f xs rush = rush"
  by (induction xs) (simp_all add: assms)

lemma fastfill_pixel_masks_clear: "fastfill_pixel False False c z co ao x rush = rush"
  by (simp add: fastfill_pixel_def Let_def)

lemma fastfill_row_masks_clear:
  "fastfill_row False False c z yf cb ab cs as cl cr cbt y rush = rush"
  unfolding fastfill_row_def Let_def
  by (rule fold_unchanged) (rule fastfill_pixel_masks_clear)

text \<open>
  Claim C7.  When the colour-write mask bit and the depth-write mask bit of the FBZ mode
  register are both clear, FastFill leaves every byte of the frame buffer (the aux area
  lies inside it) as it was, for every clip rectangle, buffer setup and fill colour;
  the whole device state is unchanged.
\<close>

theorem fastfill_masks_clear_no_change:
  "fbz_mode rush AND FBZ_RGB_WMASK K = 0 \<Longrightarrow> fbz_mode rush AND FBZ_DEPTH_WMASK K = 0 \<Longrightarrow>
   puma_fb (voodoo_rush_fastfill K rush) = puma_fb rush \<and> voodoo_rush_fastfill K rush = rush"
proof -
  assume c: "fbz_mode rush AND FBZ_RGB_WMASK K = 0" and d: "fbz_mode rush AND FBZ_DEPTH_WMASK K = 0"
  have "voodoo_rush_fastfill K rush = rush"
    unfolding voodoo_rush_fastfill_def Let_def c d
    by (simp add: fold_unchanged [OF fastfill_row_masks_clear])
  then show ?thesis by simp
qed

theorem fastfill_masks_clear_no_change_witness:
  "puma_fb
     (voodoo_rush_fastfill \<lparr>FBZ_RGB_WMASK = 0x200, FBZ_DEPTH_WMASK = 0x400\<rparr>
        ((voodoo_rush_init True)
           \<lparr>color0 := 0x00FF8040, za_color := 0x1234,
            clip_left_right := (\<lambda>_. 0)(0 := 0x00040000),
            clip_top_bottom := (\<lambda>_. 0)(0 := 0x00030001), fbz_mode := 0x20000\<rparr>)) = (\<lambda>_. 0)"
  using fastfill_masks_clear_no_change
    [of "(voodoo_rush_init True)
           \<lparr>color0 := 0x00FF8040, za_color := 0x1234,
            clip_left_right := (\<lambda>_. 0)(0 := 0x00040000),
            clip_top_bottom := (\<lambda>_. 0)(0 := 0x00030001), fbz_mode := 0x20000\<rparr>"
        "\<lparr>FBZ_RGB_WMASK = 0x200, FBZ_DEPTH_WMASK = 0x400\<rparr>"]
  by (simp add: voodoo_rush_init_def rush_calloc_def)

subsection \<open>PUMA reads of the registers 0x09 to 0x16\<close>

text \<open>
  The frame-buffer size, its mask, the mode and the enable flag are set by
  \<^verbatim>\<open>voodoo_rush_init\<close>; register writes and the reset leave them as they are.
\<close>

lemma fastfill_keeps_layout:
  "puma_fb_size (voodoo_rush_fastfill K rush) = puma_fb_size rush"
  "puma_fb_mask (voodoo_rush_fastfill K rush) = puma_fb_mask rush"
  "puma_mode_8mb (voodoo_rush_fastfill K rush) = puma_mode_8mb rush"
  "enabled (voodoo_rush_fastfill K rush) = enabled rush"
  by (subst fastfill_only_fb, simp)+

lemma render_triangle_keeps_layout:
  "puma_fb_size (voodoo_rush_render_triangle rush) = puma_fb_size rush"
  "puma_fb_mask (voodoo_rush_render_triangle rush) = puma_fb_mask rush"
  "puma_mode_8mb (voodoo_rush_render_triangle rush) = puma_mode_8mb rush"
  "enabled (voodoo_rush_render_triangle rush) = enabled rush"
  by (simp_all add: voodoo_rush_render_triangle_def Let_def split: option.splits)

lemma reg_write_keeps_layout:
  "puma_fb_size (voodoo_rush_reg_write K rush reg val) = puma_fb_size rush"
  "puma_fb_mask (voodoo_rush_reg_write K rush reg val) = puma_fb_mask rush"
  "puma_mode_8mb (voodoo_rush_reg_write K rush reg val) = puma_mode_8mb rush"
  "enabled (voodoo_rush_reg_write K rush reg val) = enabled rush"
  by (simp_all add: sst96 voodoo_rush_reg_write_def Let_def fastfill_keeps_layout
      render_triangle_keeps_layout)

lemma puma_layout_ok_init: "puma_layout_ok (voodoo_rush_init m)"
  by (simp add: puma_layout_ok_def voodoo_rush_init_def rush_calloc_def)

lemma puma_layout_ok_reg_write:
  "puma_layout_ok (voodoo_rush_reg_write K rush reg val) = puma_layout_ok rush"
  by (simp add: puma_layout_ok_def reg_write_keeps_layout)

lemma puma_layout_ok_reset: "puma_layout_ok (voodoo_rush_reset rush) = puma_layout_ok rush"
  by (simp add: puma_layout_ok_def voodoo_rush_reset_def)



lemma reg_read_raw_gradient_range:
  "SST96_DRDX \<le> reg \<Longrightarrow> reg \<le> SST96_DADY \<Longrightarrow> voodoo_rush_reg_read rush reg = regs rush (unat reg)"
proof -
  assume a: "SST96_DRDX \<le> reg" and b: "reg \<le> SST96_DADY"
  from b have c: "\<not> 256 \<le> reg" by (simp add: sst96 word_le_nat_alt)
  from a b show ?thesis
    unfolding voodoo_rush_reg_read_def
    by (simp only: c if_False) (auto simp: sst96)
qed

lemma puma_read_gradient_range:
  "enabled rush \<Longrightarrow> puma_layout_ok rush \<Longrightarrow>
   (if puma_mode_8mb rush then SST96_PUMA_REG_START else SST96_PUMA_REG_START_4MB) \<le> addr \<Longrightarrow>
   addr < (if puma_mode_8mb rush then SST96_PUMA_REG_START + SST96_PUMA_REG_SIZE
           else SST96_PUMA_REG_START_4MB + SST96_PUMA_REG_SIZE_4MB) \<Longrightarrow>
   SST96_DRDX \<le> puma_addr_to_reg addr (puma_mode_8mb rush) \<Longrightarrow>
   puma_addr_to_reg addr (puma_mode_8mb rush) \<le> SST96_DADY \<Longrightarrow>
   voodoo_rush_puma_read addr rush =
     signed_take_bit 23 (regs rush (unat (puma_addr_to_reg addr (puma_mode_8mb rush))))"
  apply (simp add: voodoo_rush_puma_read_def Let_def puma_layout_ok_def reg_read_raw_gradient_range shl8_sar8 not_less)
  apply (auto simp: sst96 not_less)
  done

lemma start_writes:
  "voodoo_rush_reg_write K rush SST96_START_G val =
     rush\<lparr>regs := (regs rush)(0x0b := val), triangle := (triangle rush)\<lparr>startG := val AND 0xffffff\<rparr>\<rparr>"
  "voodoo_rush_reg_write K rush SST96_START_B val =
     rush\<lparr>regs := (regs rush)(0x0e := val), triangle := (triangle rush)\<lparr>startB := val AND 0xffffff\<rparr>\<rparr>"
  "voodoo_rush_reg_write K rush SST96_START_Z val =
     rush\<lparr>regs := (regs rush)(0x11 := val), triangle := (triangle rush)\<lparr>startZ := val\<rparr>\<rparr>"
  "voodoo_rush_reg_write K rush SST96_START_A val =
     rush\<lparr>regs := (regs rush)(0x14 := val), triangle := (triangle rush)\<lparr>startA := val AND 0xffffff\<rparr>\<rparr>"
  by (simp_all add: sst96 voodoo_rush_reg_write_def Let_def)

lemma puma_read_after_start_write:
  assumes en: "enabled rush" and ok: "puma_layout_ok rush"
    and reg: "reg = SST96_START_G \<or> reg = SST96_START_B \<or> reg = SST96_START_Z \<or>
              reg = SST96_START_A"
  shows "voodoo_rush_puma_read
           ((if puma_mode_8mb rush then SST96_PUMA_REG_START else SST96_PUMA_REG_START_4MB)
              + push_bit 12 reg)
           (voodoo_rush_reg_write K rush reg val) = signed_take_bit 23 val"
proof -
  let ?a = "(if puma_mode_8mb rush then SST96_PUMA_REG_START else SST96_PUMA_REG_START_4MB)
              + push_bit 12 reg"
  obtain t where w: "voodoo_rush_reg_write K rush reg val =
      rush\<lparr>regs := (regs rush)(unat reg := val), triangle := t\<rparr>"
    using reg by (auto simp: start_writes) (simp_all add: sst96)
  let ?r = "rush\<lparr>regs := (regs rush)(unat reg := val), triangle := t\<rparr>"
  have r: "puma_addr_to_reg ?a (puma_mode_8mb rush) = reg"
    using reg by (auto simp: puma_addr_to_reg_def sst96)
  have "voodoo_rush_puma_read ?a ?r =
     signed_take_bit 23 (regs ?r (unat (puma_addr_to_reg ?a (puma_mode_8mb ?r))))"
  proof (rule puma_read_gradient_range)
    show "enabled ?r" using en by simp
    show "puma_layout_ok ?r" using ok by (simp add: puma_layout_ok_def)
    show "(if puma_mode_8mb ?r then SST96_PUMA_REG_START else SST96_PUMA_REG_START_4MB) \<le> ?a"
      using reg by (auto simp: sst96)
    show "?a < (if puma_mode_8mb ?r then SST96_PUMA_REG_START + SST96_PUMA_REG_SIZE
           else SST96_PUMA_REG_START_4MB + SST96_PUMA_REG_SIZE_4MB)"
      using reg by (auto simp: sst96)
    show "SST96_DRDX \<le> puma_addr_to_reg ?a (puma_mode_8mb ?r)"
      using reg by (auto simp: r) (simp_all add: sst96)
    show "puma_addr_to_reg ?a (puma_mode_8mb ?r) \<le> SST96_DADY"
      using reg by (auto simp: r) (simp_all add: sst96)
  qed
  then show ?thesis by (simp add: w r)
qed

text \<open>
  Claim C10.  On an enabled device whose frame-buffer size is the one of its mode, a PUMA
  read at an address of the register window that decodes to an index from \<open>0x09\<close>
  (dR/dX) to \<open>0x16\<close> (dA/dY) returns the raw register value sign-extended from bit 23.
  The range includes the start registers of G, B, Z and A: after a write of a value with
  bit 23 set to one of them, the read of its page returns the value with the top eight
  bits set, while the stored start is the value masked to 24 bits (the raw value for Z).
\<close>

theorem puma_read_sign_extends_0x09_to_0x16:
  "enabled rush \<Longrightarrow> puma_layout_ok rush \<Longrightarrow>
   (if puma_mode_8mb rush then SST96_PUMA_REG_START else SST96_PUMA_REG_START_4MB) \<le> addr \<Longrightarrow>
   addr < (if puma_mode_8mb rush then SST96_PUMA_REG_START + SST96_PUMA_REG_SIZE
           else SST96_PUMA_REG_START_4MB + SST96_PUMA_REG_SIZE_4MB) \<Longrightarrow>
   SST96_DRDX \<le> puma_addr_to_reg addr (puma_mode_8mb rush) \<Longrightarrow>
   puma_addr_to_reg addr (puma_mode_8mb rush) \<le> SST96_DADY \<Longrightarrow>
   bit val 23 \<Longrightarrow>
   voodoo_rush_puma_read addr rush =
     signed_take_bit 23 (regs rush (unat (puma_addr_to_reg addr (puma_mode_8mb rush)))) \<and>
   voodoo_rush_puma_read
     ((if puma_mode_8mb rush then SST96_PUMA_REG_START else SST96_PUMA_REG_START_4MB)
        + push_bit 12 SST96_START_G)
     (voodoo_rush_reg_write K rush SST96_START_G val) = val OR 0xff000000 \<and>
   startG (triangle (voodoo_rush_reg_write K rush SST96_START_G val)) = val AND 0xffffff \<and>
   voodoo_rush_puma_read
     ((if puma_mode_8mb rush then SST96_PUMA_REG_START else SST96_PUMA_REG_START_4MB)
        + push_bit 12 SST96_START_B)
     (voodoo_rush_reg_write K rush SST96_START_B val) = val OR 0xff000000 \<and>
   startB (triangle (voodoo_rush_reg_write K rush SST96_START_B val)) = val AND 0xffffff \<and>
   voodoo_rush_puma_read
     ((if puma_mode_8mb rush then SST96_PUMA_REG_START else SST96_PUMA_REG_START_4MB)
        + push_bit 12 SST96_START_Z)
     (voodoo_rush_reg_write K rush SST96_START_Z val) = val OR 0xff000000 \<and>
   startZ (triangle (voodoo_rush_reg_write K rush SST96_START_Z val)) = val \<and>
   voodoo_rush_puma_read
     ((if puma_mode_8mb rush then SST96_PUMA_REG_START else SST96_PUMA_REG_START_4MB)
        + push_bit 12 SST96_START_A)
     (voodoo_rush_reg_write K rush SST96_START_A val) = val OR 0xff000000 \<and>
   startA (triangle (voodoo_rush_reg_write K rush SST96_START_A val)) = val AND 0xffffff"
proof -
  assume en: "enabled rush" and ok: "puma_layout_ok rush"
    and a: "(if puma_mode_8mb rush then SST96_PUMA_REG_START else SST96_PUMA_REG_START_4MB) \<le> addr"
      "addr < (if puma_mode_8mb rush then SST96_PUMA_REG_START + SST96_PUMA_REG_SIZE
           else SST96_PUMA_REG_START_4MB + SST96_PUMA_REG_SIZE_4MB)"
      "SST96_DRDX \<le> puma_addr_to_reg addr (puma_mode_8mb rush)"
      "puma_addr_to_reg addr (puma_mode_8mb rush) \<le> SST96_DADY"
    and b: "bit val 23"
  have ext: "signed_take_bit 23 val = val OR 0xff000000"
    using b unfolding sext24_bits [symmetric] bit23_test by simp
  have g: "voodoo_rush_puma_read addr rush =
     signed_take_bit 23 (regs rush (unat (puma_addr_to_reg addr (puma_mode_8mb rush))))"
    using en ok a by (rule puma_read_gradient_range)
  note s = puma_read_after_start_write [OF en ok, where K = K and val = val, unfolded ext]
  have t: "startG (triangle (voodoo_rush_reg_write K rush SST96_START_G val)) = val AND 0xffffff"
    "startB (triangle (voodoo_rush_reg_write K rush SST96_START_B val)) = val AND 0xffffff"
    "startZ (triangle (voodoo_rush_reg_write K rush SST96_START_Z val)) = val"
    "startA (triangle (voodoo_rush_reg_write K rush SST96_START_A val)) = val AND 0xffffff"
    by (simp_all add: start_writes)
  show ?thesis
    by (intro conjI g t s) simp_all
qed

theorem puma_read_sign_extends_0x09_to_0x16_witness:
  "voodoo_rush_puma_read 0x409ABC
     (voodoo_rush_reg_write \<lparr>FBZ_RGB_WMASK = 0x200, FBZ_DEPTH_WMASK = 0x400\<rparr>
        (voodoo_rush_init True) SST96_DRDX 0x00800001) = 0xFF800001 \<and>
   voodoo_rush_puma_read 0x40B000
     (voodoo_rush_reg_write \<lparr>FBZ_RGB_WMASK = 0x200, FBZ_DEPTH_WMASK = 0x400\<rparr>
        (voodoo_rush_reg_write \<lparr>FBZ_RGB_WMASK = 0x200, FBZ_DEPTH_WMASK = 0x400\<rparr>
           (voodoo_rush_init True) SST96_DRDX 0x00800001)
        SST96_START_G 0x00800001) = 0xFF800001"
  using puma_read_sign_extends_0x09_to_0x16
    [of "voodoo_rush_reg_write \<lparr>FBZ_RGB_WMASK = 0x200, FBZ_DEPTH_WMASK = 0x400\<rparr>
           (voodoo_rush_init True) SST96_DRDX 0x00800001"
        "0x409ABC" "0x00800001" "\<lparr>FBZ_RGB_WMASK = 0x200, FBZ_DEPTH_WMASK = 0x400\<rparr>"]
  unfolding gradient_write_state start_writes
  by (simp add: voodoo_rush_init_def rush_calloc_def puma_layout_ok_def puma_addr_to_reg_def
      sst96)

subsection \<open>The command FIFO: NOP packets\<close>

lemma read32_zero_after_zero_writes:
  "read32 (write32 (write32 m a 0) a' 0) a = 0"
  "read32 (write32 (write32 m a 0) a' 0) a' = 0"
  by (simp_all add: read32_def write32_def)

lemma seven_mask: "(7::u32) = mask 3"
  by (simp add: mask_eq_exp_minus_1)

lemma slot_offset_aligned: "(push_bit 3 (rp::u32) AND push_bit 3 sz) AND 7 = 0"
  unfolding seven_mask
  by (rule bit_word_eqI) (auto simp add: bit_simps)

lemma data_offset:
  assumes "(x::u32) AND 7 = 0"
  shows "(x + 4) AND 7 = 4"
proof -
  have "bit (x AND 7) 2 = bit (0::u32) 2" by (simp only: assms)
  then have nb: "\<not> bit x 2" by (simp add: seven_mask bit_simps)
  have b4: "bit (4::u32) n \<Longrightarrow> n = 2" for n
    using bit_push_bit_iff [of 2 "1::u32" n] by (auto simp: bit_1_iff)
  have "x + 4 = x OR 4"
    by (rule disjunctive_add) (use nb b4 in blast)
  then have "(x + 4) AND 7 = (x AND 7) OR (4 AND 7)"
    by (simp add: bit.conj_disj_distrib2)
  then show ?thesis by (simp add: assms)
qed

lemma slot_in_bounds:
  assumes "(b::u32) \<le> ra" and "unat ra + 8 \<le> unat t"
  shows "\<not> ra < b" "\<not> t \<le> ra" "\<not> ra + 4 < b" "\<not> t \<le> ra + 4" "\<not> t < ra + 8"
proof -
  have t: "unat t < 2 ^ 32" using unsigned_less [of t] by simp
  have u4: "unat (ra + 4) = unat ra + 4"
    using assms(2) t by (simp add: unat_word_ariths)
  have u8: "unat (ra + 8) = unat ra + 8"
    using assms(2) t by (simp add: unat_word_ariths)
  have b: "unat b \<le> unat ra" using assms(1) by (simp add: word_le_nat_alt)
  show "\<not> ra < b" using b by (simp add: word_less_nat_alt)
  show "\<not> t \<le> ra" using assms(2) by (simp add: word_le_nat_alt)
  show "\<not> ra + 4 < b" using b by (simp add: word_less_nat_alt u4)
  show "\<not> t \<le> ra + 4" using assms(2) by (simp add: word_le_nat_alt u4)
  show "\<not> t < ra + 8" using assms(2) by (simp add: word_less_nat_alt u8)
qed

lemma ring_size_nonzero:
  assumes "(b::u32) \<le> ra" and "unat ra + 8 \<le> unat t"
  shows "drop_bit 3 (t - b) \<noteq> 0"
proof -
  have "unat b \<le> unat ra" using assms(1) by (simp add: word_le_nat_alt)
  then have bt: "b \<le> t" using assms(2) by (simp add: word_le_nat_alt)
  have "unat (t - b) = unat t - unat b" using bt by (rule unat_sub)
  then have "8 \<le> unat (t - b)" using assms(2) \<open>unat b \<le> unat ra\<close> by simp
  then have "1 \<le> unat (t - b) div 8" by simp
  then have "unat (drop_bit 3 (t - b)) \<noteq> 0"
    by (simp add: drop_bit_eq_div unat_div)
  then show ?thesis by auto
qed

lemma mod_ring_less: "(sz :: u32) \<noteq> 0 \<Longrightarrow> x mod sz < sz"
  by (simp add: word_gt_0 word_mod_less_divisor)


lemma sint_pos_threshold:
  assumes "(thr::u32) < 0x80000000" "thr \<noteq> 0"
  shows "0 < sint thr"
proof -
  have u: "uint thr < 2 ^ 31" using assms(1) by (simp add: word_less_def)
  have "0 \<le> uint thr" by simp
  have l: "- (2 ^ 31) \<le> uint thr" by (rule order_trans [of _ 0]) simp_all
  have "sint thr = signed_take_bit 31 (uint thr)" by (simp add: sint_uint)
  also have "\<dots> = uint thr"
    using l u by (rule signed_take_bit_int_eq_self)
  finally have "sint thr = uint thr" .
  moreover have "uint thr \<noteq> 0" using assms(2) by (simp add: uint_0_iff)
  ultimately show ?thesis using \<open>0 \<le> uint thr\<close> by linarith
qed

lemma incr_nonzero:
  assumes "(c::u32) < 0xffffffff"
  shows "c + 1 \<noteq> 0"
proof -
  have "unat c < 4294967295" using assms by (simp add: word_less_nat_alt)
  then have "unat (c + 1) = unat c + 1" by (simp add: unat_word_ariths)
  then show ?thesis by auto
qed

lemma cmdfifo_iter_nop:
  assumes "\<not> (cmdfifo_read_addr b sz rush < b \<or> t < cmdfifo_read_addr b sz rush + 8)"
    and "read32 (puma_fb rush) (cmdfifo_read_addr b sz rush AND puma_fb_mask rush) = 0"
    and "read32 (puma_fb rush) ((cmdfifo_read_addr b sz rush + 4) AND puma_fb_mask rush) = 0"
  shows "cmdfifo_iter K b t sz rush =
           Some (rush\<lparr>cmdfifo_read_ptr := (cmdfifo_read_ptr rush + 2) mod sz,
                      cmdfifo_entry_count := cmdfifo_entry_count rush - 1\<rparr>)"
  using assms by (simp add: cmdfifo_iter_def Let_def)

lemma nop_write_then_drain:
  assumes b: "b = push_bit 12 (cmdfifo_bottom_page rush)"
    and t: "t = push_bit 12 (cmdfifo_top_page rush)"
    and sz: "sz = drop_bit 3 (t - b)"
    and ra: "ra = cmdfifo_read_addr b sz rush"
    and en: "cmdfifo_enabled rush"
    and lo: "b \<le> ra" and hi: "unat ra + 8 \<le> unat t"
    and one: "(cmdfifo_entry_count rush = 0 \<and> cmdfifo_threshold rush < 0x80000000) \<or>
              (cmdfifo_threshold rush = 1 \<and> cmdfifo_entry_count rush < 0xffffffff)"
  shows "\<exists>st. voodoo_rush_cmdfifo_write K (voodoo_rush_cmdfifo_write K rush ra 0) (ra + 4) 0 =
           rush\<lparr>puma_fb := write32 (write32 (puma_fb rush) (ra AND puma_fb_mask rush) 0)
                               ((ra + 4) AND puma_fb_mask rush) 0,
                cmdfifo_read_ptr := (cmdfifo_read_ptr rush + 2) mod sz,
                cmdfifo_entry_count := cmdfifo_entry_count rush,
                status := st\<rparr>"
proof -
  note bnd = slot_in_bounds [OF lo hi]
  let ?m = "puma_fb_mask rush"
  let ?r1 = "rush\<lparr>puma_fb := write32 (puma_fb rush) (ra AND ?m) 0\<rparr>"
  let ?fb2 = "write32 (write32 (puma_fb rush) (ra AND ?m) 0) ((ra + 4) AND ?m) 0"
  let ?r2 = "rush\<lparr>puma_fb := ?fb2, cmdfifo_entry_count := cmdfifo_entry_count rush + 1\<rparr>"
  let ?r3 = "rush\<lparr>puma_fb := ?fb2, cmdfifo_read_ptr := (cmdfifo_read_ptr rush + 2) mod sz\<rparr>"
  have off: "ra - b = push_bit 3 (cmdfifo_read_ptr rush) AND push_bit 3 sz"
    by (simp add: ra cmdfifo_read_addr_def)
  have off0: "(ra - b) AND 7 = 0" unfolding off by (rule slot_offset_aligned)
  have off4: "(ra + 4 - b) AND 7 = 4"
    using data_offset [OF off0] by (simp add: algebra_simps)
  have w1: "voodoo_rush_cmdfifo_write K rush ra 0 = ?r1"
    using en bnd off0 by (simp add: voodoo_rush_cmdfifo_write_def Let_def b [symmetric] t [symmetric])
  have nz: "cmdfifo_entry_count rush + 1 \<noteq> 0"
    using one incr_nonzero by auto
  have gt: "0 < cmdfifo_entry_count rush + 1" using nz by (simp add: word_gt_0)
  have w2: "voodoo_rush_cmdfifo_write K ?r1 (ra + 4) 0 = voodoo_rush_process_cmdfifo K ?r2"
    using en bnd off4 gt
    by (simp add: voodoo_rush_cmdfifo_write_def Let_def b [symmetric] t [symmetric])
  define maxp where "maxp = sint (if cmdfifo_threshold rush \<noteq> 0 then cmdfifo_threshold rush
                     else cmdfifo_entry_count rush + 1)"
  have mp: "0 < maxp"
    using one sint_pos_threshold [of "cmdfifo_threshold rush"] by (auto simp: maxp_def)
  have stop: "\<not> (0 < cmdfifo_entry_count rush \<and> 1 < maxp)"
    using one by (auto simp: maxp_def)
  have ra2: "cmdfifo_read_addr b sz ?r2 = ra" by (simp add: ra cmdfifo_read_addr_def)
  have it: "cmdfifo_iter K b t sz ?r2 = Some ?r3"
    by (subst cmdfifo_iter_nop) (simp_all add: ra2 bnd read32_zero_after_zero_writes)
  have l2: "cmdfifo_loop K b t sz maxp ?r3 1 = ?r3"
    using stop by (subst cmdfifo_loop.simps) auto
  have l1: "cmdfifo_loop K b t sz maxp ?r2 0 = ?r3"
    using gt mp by (subst cmdfifo_loop.simps) (simp add: it l2)
  have "voodoo_rush_process_cmdfifo K ?r2 =
          (let rush1 = cmdfifo_loop K b t sz maxp ?r2 0
           in if cmdfifo_entry_count rush1 < cmdfifo_threshold rush1
              then rush1\<lparr>status := status rush1 AND NOT (push_bit 16 1)\<rparr> else rush1)"
    unfolding maxp_def using en nz
    by (simp add: voodoo_rush_process_cmdfifo_def Let_def b [symmetric] t [symmetric]
        sz [symmetric])
  then have "voodoo_rush_process_cmdfifo K ?r2 =
          (if cmdfifo_entry_count rush < cmdfifo_threshold rush
           then ?r3\<lparr>status := status rush AND NOT (push_bit 16 1)\<rparr> else ?r3)"
    unfolding l1 by (simp add: Let_def)
  then show ?thesis
    unfolding w1 w2
    by (cases "cmdfifo_entry_count rush < cmdfifo_threshold rush")
      (auto intro: exI [of _ "status rush"] exI [of _ "status rush AND NOT (push_bit 16 1)"])
qed


lemma less_imp_le_pred:
  assumes "(x::u32) < y"
  shows "x \<le> y - 1"
proof -
  have l: "unat x < unat y" using assms by (simp add: word_less_nat_alt)
  then have "1 \<le> y" by (simp add: word_le_nat_alt)
  then have "unat (y - 1) = unat y - unat (1::u32)" by (rule unat_sub)
  then show ?thesis using l by (simp add: word_le_nat_alt)
qed

text \<open>
  Claim C5.  An iteration of the drain that finds a NOP packet (header word 0 and data
  word 0) at the read slot sets the read pointer to \<open>(read_ptr + 2) mod cmdfifo_size\<close>,
  where \<open>cmdfifo_size\<close> is \<^verbatim>\<open>(top - base) >> 3\<close>, and decrements the entry count.
  Writing a NOP packet into the slot at the read pointer (header, then data, through
  \<^verbatim>\<open>voodoo_rush_cmdfifo_write\<close>) and letting the write drain it leaves the entry count at
  its prior value and the read pointer advanced by 2 modulo the ring size, which never
  exceeds \<open>cmdfifo_size - 1\<close>.  The slot at the read pointer lies in the ring, and the
  drain that the write starts takes one packet: the queue was empty (with a threshold
  that is not negative as an \<^verbatim>\<open>int\<close>), or the threshold is 1.
\<close>

theorem cmdfifo_nop_packet_roundtrip:
  "cmdfifo_base = push_bit 12 (cmdfifo_bottom_page rush) \<Longrightarrow>
   cmdfifo_top = push_bit 12 (cmdfifo_top_page rush) \<Longrightarrow>
   cmdfifo_size = drop_bit 3 (cmdfifo_top - cmdfifo_base) \<Longrightarrow>
   read_addr = cmdfifo_read_addr cmdfifo_base cmdfifo_size rush \<Longrightarrow>
   cmdfifo_enabled rush \<Longrightarrow>
   cmdfifo_base \<le> read_addr \<Longrightarrow> unat read_addr + 8 \<le> unat cmdfifo_top \<Longrightarrow>
   (cmdfifo_entry_count rush = 0 \<and> cmdfifo_threshold rush < 0x80000000) \<or>
   (cmdfifo_threshold rush = 1 \<and> cmdfifo_entry_count rush < 0xffffffff) \<Longrightarrow>
   rush' = voodoo_rush_cmdfifo_write K (voodoo_rush_cmdfifo_write K rush read_addr 0)
             (read_addr + 4) 0 \<Longrightarrow>
   (\<forall>r. \<not> (cmdfifo_read_addr cmdfifo_base cmdfifo_size r < cmdfifo_base \<or>
            cmdfifo_top < cmdfifo_read_addr cmdfifo_base cmdfifo_size r + 8) \<and>
        read32 (puma_fb r) (cmdfifo_read_addr cmdfifo_base cmdfifo_size r AND puma_fb_mask r) = 0 \<and>
        read32 (puma_fb r)
          ((cmdfifo_read_addr cmdfifo_base cmdfifo_size r + 4) AND puma_fb_mask r) = 0 \<longrightarrow>
        cmdfifo_iter K cmdfifo_base cmdfifo_top cmdfifo_size r =
          Some (r\<lparr>cmdfifo_read_ptr := (cmdfifo_read_ptr r + 2) mod cmdfifo_size,
                   cmdfifo_entry_count := cmdfifo_entry_count r - 1\<rparr>)) \<and>
   cmdfifo_entry_count rush' = cmdfifo_entry_count rush \<and>
   cmdfifo_read_ptr rush' = (cmdfifo_read_ptr rush + 2) mod cmdfifo_size \<and>
   cmdfifo_read_ptr rush' \<le> cmdfifo_size - 1"
proof (intro conjI allI impI)
  fix r
  assume "\<not> (cmdfifo_read_addr cmdfifo_base cmdfifo_size r < cmdfifo_base \<or>
            cmdfifo_top < cmdfifo_read_addr cmdfifo_base cmdfifo_size r + 8) \<and>
        read32 (puma_fb r) (cmdfifo_read_addr cmdfifo_base cmdfifo_size r AND puma_fb_mask r) = 0 \<and>
        read32 (puma_fb r)
          ((cmdfifo_read_addr cmdfifo_base cmdfifo_size r + 4) AND puma_fb_mask r) = 0"
  then show "cmdfifo_iter K cmdfifo_base cmdfifo_top cmdfifo_size r =
          Some (r\<lparr>cmdfifo_read_ptr := (cmdfifo_read_ptr r + 2) mod cmdfifo_size,
                   cmdfifo_entry_count := cmdfifo_entry_count r - 1\<rparr>)"
    by (intro cmdfifo_iter_nop) simp_all
next
  assume a: "cmdfifo_base = push_bit 12 (cmdfifo_bottom_page rush)"
    "cmdfifo_top = push_bit 12 (cmdfifo_top_page rush)"
    "cmdfifo_size = drop_bit 3 (cmdfifo_top - cmdfifo_base)"
    "read_addr = cmdfifo_read_addr cmdfifo_base cmdfifo_size rush"
    "cmdfifo_enabled rush"
    "cmdfifo_base \<le> read_addr" "unat read_addr + 8 \<le> unat cmdfifo_top"
    "(cmdfifo_entry_count rush = 0 \<and> cmdfifo_threshold rush < 0x80000000) \<or>
     (cmdfifo_threshold rush = 1 \<and> cmdfifo_entry_count rush < 0xffffffff)"
    and r: "rush' = voodoo_rush_cmdfifo_write K (voodoo_rush_cmdfifo_write K rush read_addr 0)
             (read_addr + 4) 0"
  from nop_write_then_drain [OF a, of K] obtain st where
    e: "rush' = rush\<lparr>puma_fb := write32 (write32 (puma_fb rush) (read_addr AND puma_fb_mask rush) 0)
                               ((read_addr + 4) AND puma_fb_mask rush) 0,
                cmdfifo_read_ptr := (cmdfifo_read_ptr rush + 2) mod cmdfifo_size,
                cmdfifo_entry_count := cmdfifo_entry_count rush,
                status := st\<rparr>"
    unfolding r by blast
  have nz: "cmdfifo_size \<noteq> 0"
    unfolding a(3) using a(6,7) by (rule ring_size_nonzero)
  show "cmdfifo_entry_count rush' = cmdfifo_entry_count rush" by (simp add: e)
  show p: "cmdfifo_read_ptr rush' = (cmdfifo_read_ptr rush + 2) mod cmdfifo_size" by (simp add: e)
  show "cmdfifo_read_ptr rush' \<le> cmdfifo_size - 1"
    unfolding p using nz by (intro less_imp_le_pred mod_ring_less)
qed

theorem cmdfifo_nop_packet_roundtrip_witness:
  "cmdfifo_read_ptr
     (voodoo_rush_reg_write \<lparr>FBZ_RGB_WMASK = 0x200, FBZ_DEPTH_WMASK = 0x400\<rparr>
        (voodoo_rush_reg_write \<lparr>FBZ_RGB_WMASK = 0x200, FBZ_DEPTH_WMASK = 0x400\<rparr>
           (voodoo_rush_init True) SST96_FBIJR_INIT3 0x1003) SST96_CMDFIFO_RDPTR 510) = 510 \<and>
   cmdfifo_entry_count
     (voodoo_rush_cmdfifo_write \<lparr>FBZ_RGB_WMASK = 0x200, FBZ_DEPTH_WMASK = 0x400\<rparr>
        (voodoo_rush_cmdfifo_write \<lparr>FBZ_RGB_WMASK = 0x200, FBZ_DEPTH_WMASK = 0x400\<rparr>
           (voodoo_rush_reg_write \<lparr>FBZ_RGB_WMASK = 0x200, FBZ_DEPTH_WMASK = 0x400\<rparr>
              (voodoo_rush_reg_write \<lparr>FBZ_RGB_WMASK = 0x200, FBZ_DEPTH_WMASK = 0x400\<rparr>
                 (voodoo_rush_init True) SST96_FBIJR_INIT3 0x1003) SST96_CMDFIFO_RDPTR 510)
           0x1000 0)
        0x1004 0) = 0 \<and>
   cmdfifo_read_ptr
     (voodoo_rush_cmdfifo_write \<lparr>FBZ_RGB_WMASK = 0x200, FBZ_DEPTH_WMASK = 0x400\<rparr>
        (voodoo_rush_cmdfifo_write \<lparr>FBZ_RGB_WMASK = 0x200, FBZ_DEPTH_WMASK = 0x400\<rparr>
           (voodoo_rush_reg_write \<lparr>FBZ_RGB_WMASK = 0x200, FBZ_DEPTH_WMASK = 0x400\<rparr>
              (voodoo_rush_reg_write \<lparr>FBZ_RGB_WMASK = 0x200, FBZ_DEPTH_WMASK = 0x400\<rparr>
                 (voodoo_rush_init True) SST96_FBIJR_INIT3 0x1003) SST96_CMDFIFO_RDPTR 510)
           0x1000 0)
        0x1004 0) = 0"
proof -
  let ?K = "\<lparr>FBZ_RGB_WMASK = 0x200, FBZ_DEPTH_WMASK = 0x400\<rparr>"
  let ?R = "voodoo_rush_reg_write ?K
              (voodoo_rush_reg_write ?K (voodoo_rush_init True) SST96_FBIJR_INIT3 0x1003)
              SST96_CMDFIFO_RDPTR 510"
  have f: "cmdfifo_bottom_page ?R = 1" "cmdfifo_top_page ?R = 2" "cmdfifo_enabled ?R"
    "cmdfifo_entry_count ?R = 0" "cmdfifo_threshold ?R = 0" "cmdfifo_read_ptr ?R = 510"
    by (simp_all add: sst96 voodoo_rush_reg_write_def voodoo_rush_init_def rush_calloc_def
        Let_def)
  have h1: "(0x1000::u32) = push_bit 12 (cmdfifo_bottom_page ?R)" by (simp add: f)
  have h2: "(0x2000::u32) = push_bit 12 (cmdfifo_top_page ?R)" by (simp add: f)
  have h3: "(512::u32) = drop_bit 3 (0x2000 - 0x1000)" by simp
  have h4: "(0x1000::u32) = cmdfifo_read_addr 0x1000 512 ?R"
    by (simp add: cmdfifo_read_addr_def f)
  have h6: "(0x1000::u32) \<le> 0x1000" by simp
  have h7: "unat (0x1000::u32) + 8 \<le> unat (0x2000::u32)" by simp
  have h8: "(cmdfifo_entry_count ?R = 0 \<and> cmdfifo_threshold ?R < 0x80000000) \<or>
            (cmdfifo_threshold ?R = 1 \<and> cmdfifo_entry_count ?R < 0xffffffff)"
    by (simp add: f)
  note t = cmdfifo_nop_packet_roundtrip [OF h1 h2 h3 h4 f(3) h6 h7 h8 refl, of ?K]
  from t show ?thesis by (simp add: f)
qed

text \<open>
  The remainder \<^verbatim>\<open>% cmdfifo_size\<close> is never taken with a ring of size 0: base and top
  are page addresses, so a size of 0 means that they are equal, and then the bounds
  check leaves the loop before any packet is read.
\<close>

lemma page_diff: "push_bit 12 (q::u32) - push_bit 12 p = push_bit 12 (q - p)"
  by (simp add: push_bit_eq_mult left_diff_distrib)

lemma page_slots_zero:
  assumes "drop_bit 3 (push_bit 12 (x::u32)) = 0"
  shows "push_bit 12 x = 0"
proof (rule bit_word_eqI)
  fix n assume "n < LENGTH(32)"
  show "bit (push_bit 12 x) n = bit (0::u32) n"
  proof (cases "bit (push_bit 12 x) n")
    case False
    then show ?thesis by simp
  next
    case True
    then have "3 \<le> n" by (auto simp: bit_simps)
    then have "bit (drop_bit 3 (push_bit 12 x)) (n - 3)"
      using True by (simp add: bit_drop_bit_eq)
    then show ?thesis by (simp add: assms)
  qed
qed

lemma page_plus_8:
  "push_bit 12 (p::u32) < push_bit 12 p + 8"
proof -
  have u: "unat (push_bit 12 p) = (unat p * 4096) mod 2 ^ 32"
    by (simp add: push_bit_eq_mult unat_word_ariths)
  have "(unat p * 4096) mod (4096 * 1048576) = 4096 * (unat p mod 1048576)"
    by (simp add: mult_mod_right mult.commute)
  moreover have "unat p mod 1048576 < 1048576" by simp
  ultimately have "unat (push_bit 12 p) + 8 < 2 ^ 32" using u by simp
  then have "unat (push_bit 12 p + 8) = unat (push_bit 12 p) + 8"
    by (simp add: unat_word_ariths)
  then show ?thesis by (simp add: word_less_nat_alt)
qed

lemma empty_ring_breaks:
  assumes "drop_bit 3 (push_bit 12 q - push_bit 12 p) = (0::u32)"
  shows "cmdfifo_iter K (push_bit 12 p) (push_bit 12 q)
           (drop_bit 3 (push_bit 12 q - push_bit 12 p)) rush = None"
proof -
  have "push_bit 12 (q - p) = 0"
    using assms unfolding page_diff by (rule page_slots_zero)
  then have e: "push_bit 12 q = push_bit 12 p"
    unfolding page_diff [symmetric] by simp
  show ?thesis
    unfolding assms unfolding e
    by (simp add: cmdfifo_iter_def cmdfifo_read_addr_def Let_def page_plus_8)
qed

subsection \<open>The command FIFO: grouped packets\<close>

text \<open>
  The register index that the drain derives for bit \<open>i\<close> of a grouped packet, and for a
  singleton packet: the byte address \<^verbatim>\<open>(base_addr + i) << 2\<close>, and the address field
  itself, go through the page decode, which takes the bits from 12 up.
\<close>

lemma ff_is_mask8: "(0xff::u32) = mask 8"
  by (simp add: mask_eq_exp_minus_1)

lemma grouped_decode_index:
  "puma_addr_to_reg
     (push_bit 2 (base_addr + of_nat i) +
        (if mode_8mb then SST96_PUMA_REG_START else SST96_PUMA_REG_START_4MB)) mode_8mb =
   drop_bit 10 (base_addr + of_nat i) AND 0xff"
  unfolding puma_addr_to_reg_def Let_def ff_is_mask8
  by (rule bit_word_eqI) (auto simp add: bit_simps)

lemma singleton_decode_index:
  "puma_addr_to_reg
     ((drop_bit 2 addr_data AND 0x1fffff) +
        (if mode_8mb then SST96_PUMA_REG_START else SST96_PUMA_REG_START_4MB)) mode_8mb =
   drop_bit 12 (drop_bit 2 addr_data AND 0x1fffff) AND 0xff"
  unfolding puma_addr_to_reg_def Let_def
  by simp

lemma init_fields:
  "puma_fb (voodoo_rush_init True) = (\<lambda>_. 0)"
  "puma_fb_mask (voodoo_rush_init True) = 0x3fffff"
  "puma_fb_size (voodoo_rush_init True) = 0x400000"
  "puma_mode_8mb (voodoo_rush_init True) = True"
  "regs (voodoo_rush_init True) = (\<lambda>_. 0)"
  "cmdfifo_enabled (voodoo_rush_init True) = False"
  "cmdfifo_entry_count (voodoo_rush_init True) = 0"
  "cmdfifo_read_ptr (voodoo_rush_init True) = 0"
  "cmdfifo_threshold (voodoo_rush_init True) = 0"
  "cmdfifo_bottom_page (voodoo_rush_init True) = 0"
  "cmdfifo_top_page (voodoo_rush_init True) = 0"
  "color0 (voodoo_rush_init True) = 0"
  "fog_color (voodoo_rush_init True) = 0"
  "status (voodoo_rush_init True) = 0"
  "enabled (voodoo_rush_init True) = True"
  "fbijr_init (voodoo_rush_init True) =
     (\<lambda>_. 0)(0 := 0x0000f201, 1 := 0x01800000, 2 := 0x00070d2d, 3 := 0x00180600)"
  by (simp_all add: voodoo_rush_init_def rush_calloc_def sst96)

lemma ring_setup:
  "voodoo_rush_reg_write K (voodoo_rush_init True) SST96_FBIJR_INIT3 0x1003 =
   (voodoo_rush_init True)
     \<lparr>regs := (\<lambda>_. 0)(0x93 := 0x1003),
      fbijr_init := (\<lambda>_. 0)(0 := 0x0000f201, 1 := 0x01800000, 2 := 0x00070d2d, 3 := 0x1003),
      cmdfifo_enabled := True, cmdfifo_bottom_page := 1, cmdfifo_top_page := 2,
      cmdfifo_threshold := 0\<rparr>"
  by (simp add: sst96 voodoo_rush_reg_write_def init_fields Let_def)

lemma cmdfifo_loop_step:
  "0 < cmdfifo_entry_count rush \<Longrightarrow> processed < maxp \<Longrightarrow>
   cmdfifo_iter K b t sz rush = Some r1 \<Longrightarrow>
   cmdfifo_loop K b t sz maxp rush processed = cmdfifo_loop K b t sz maxp r1 (processed + 1)"
  by (subst cmdfifo_loop.simps) simp

lemma cmdfifo_loop_stop:
  "\<not> (0 < cmdfifo_entry_count rush \<and> processed < maxp) \<Longrightarrow>
   cmdfifo_loop K b t sz maxp rush processed = rush"
  by (subst cmdfifo_loop.simps) auto



lemma reg_write_index_0:
  "voodoo_rush_reg_write K rush 0 val = rush\<lparr>regs := (regs rush)(0 := val)\<rparr>"
  by (simp add: sst96 voodoo_rush_reg_write_def Let_def)

text \<open>
  Claim C1 against the code.  A device in 8MB mode gets a ring of one page at
  \<open>0x1000\<close> (init register 3 written with \<open>0x1003\<close>).  The two data words
  \<open>0x11111111\<close> and \<open>0x22222222\<close> are written to \<open>0x1008\<close> and \<open>0x100c\<close>; the
  write of the second one drains the still empty slot at the base as a NOP and leaves the
  read pointer at 2, which reads at the base again.  Then the header \<open>0x80000158\<close> (bit 31,
  base register address \<open>0x56\<close>) and the mask 5 are written to \<open>0x1000\<close> and
  \<open>0x1004\<close>, and the write of the mask drains the grouped packet.  The read pointer
  advances by 3 and the entry count returns to 0; both data words went to register
  index 0, whose raw slot holds the second one, and the registers \<open>0x56\<close> (colour 0) and
  \<open>0x58\<close> (fog colour) are as they were.
\<close>

theorem grouped_packet_writes_one_register:
  "(let K = \<lparr>FBZ_RGB_WMASK = 0x200, FBZ_DEPTH_WMASK = 0x400\<rparr>;
        r1 = voodoo_rush_reg_write K (voodoo_rush_init True) SST96_FBIJR_INIT3 0x1003;
        r2 = voodoo_rush_cmdfifo_write K r1 0x1008 0x11111111;
        r3 = voodoo_rush_cmdfifo_write K r2 0x100c 0x22222222;
        r4 = voodoo_rush_cmdfifo_write K r3 0x1000 0x80000158;
        r5 = voodoo_rush_cmdfifo_write K r4 0x1004 5
    in cmdfifo_read_ptr r4 = 2 \<and> cmdfifo_entry_count r4 = 0 \<and>
       cmdfifo_read_ptr r5 = 5 \<and> cmdfifo_entry_count r5 = 0 \<and>
       regs r5 (unat SST96_COLOR0) = 0 \<and> color0 r5 = 0 \<and>
       regs r5 (unat SST96_FOG_COLOR) = 0 \<and> fog_color r5 = 0 \<and>
       regs r5 0 = 0x22222222)"
proof -
  define K where "K = \<lparr>FBZ_RGB_WMASK = 0x200, FBZ_DEPTH_WMASK = 0x400\<rparr>"
  define r1 where "r1 = voodoo_rush_reg_write K (voodoo_rush_init True) SST96_FBIJR_INIT3 0x1003"
  define r2 where "r2 = voodoo_rush_cmdfifo_write K r1 0x1008 0x11111111"
  define r3 where "r3 = voodoo_rush_cmdfifo_write K r2 0x100c 0x22222222"
  define r4 where "r4 = voodoo_rush_cmdfifo_write K r3 0x1000 0x80000158"
  define r5 where "r5 = voodoo_rush_cmdfifo_write K r4 0x1004 5"
  define m1 where "m1 = write32 (\<lambda>_. 0) 0x1008 0x11111111"
  define m2 where "m2 = write32 m1 0x100c 0x22222222"
  define m3 where "m3 = write32 m2 0x1000 0x80000158"
  define m4 where "m4 = write32 m3 0x1004 5"
  have f1: "cmdfifo_enabled r1" "cmdfifo_bottom_page r1 = 1" "cmdfifo_top_page r1 = 2"
    "cmdfifo_threshold r1 = 0" "cmdfifo_entry_count r1 = 0" "cmdfifo_read_ptr r1 = 0"
    "puma_fb_mask r1 = 0x3fffff" "puma_mode_8mb r1" "puma_fb r1 = (\<lambda>_. 0)"
    "regs r1 = (\<lambda>_. 0)(0x93 := 0x1003)" "color0 r1 = 0" "fog_color r1 = 0"
    unfolding r1_def ring_setup by (simp_all add: init_fields)
  have e2: "r2 = r1\<lparr>puma_fb := m1\<rparr>"
    unfolding r2_def m1_def by (simp add: voodoo_rush_cmdfifo_write_def Let_def f1)
  txt \<open>The second data word is stored and counted, and the drain takes the empty slot at
    the base of the ring as a NOP.\<close>
  let ?a3 = "r1\<lparr>puma_fb := m2, cmdfifo_entry_count := 1\<rparr>"
  let ?b3 = "r1\<lparr>puma_fb := m2, cmdfifo_read_ptr := 2, cmdfifo_entry_count := 0\<rparr>"
  have rd2: "read32 m2 0x1000 = 0" "read32 m2 0x1004 = 0"
    by (simp_all add: m2_def m1_def read32_def write32_def)
  have it3: "cmdfifo_iter K 0x1000 0x2000 512 ?a3 = Some ?b3"
    by (simp add: cmdfifo_iter_def cmdfifo_read_addr_def Let_def f1 rd2)
  have lp3: "cmdfifo_loop K 0x1000 0x2000 512 1 ?a3 0 = ?b3"
    by (subst cmdfifo_loop_step [OF _ _ it3]) (simp_all add: cmdfifo_loop_stop)
  have pr3: "voodoo_rush_process_cmdfifo K ?a3 = ?b3"
    by (simp add: voodoo_rush_process_cmdfifo_def Let_def f1 lp3)
  have e3: "r3 = ?b3"
    unfolding r3_def e2 m2_def [symmetric]
    by (simp add: voodoo_rush_cmdfifo_write_def Let_def f1 m2_def [symmetric] pr3)
  have e4: "r4 = r1\<lparr>puma_fb := m3, cmdfifo_read_ptr := 2, cmdfifo_entry_count := 0\<rparr>"
    unfolding r4_def e3 m3_def by (simp add: voodoo_rush_cmdfifo_write_def Let_def f1)
  txt \<open>The mask word is stored and counted, and the drain takes the grouped packet.\<close>
  let ?a5 = "r1\<lparr>puma_fb := m4, cmdfifo_read_ptr := 2, cmdfifo_entry_count := 1\<rparr>"
  let ?b5 = "r1\<lparr>puma_fb := m4, regs := (\<lambda>_. 0)(0x93 := 0x1003, 0 := 0x22222222),
                cmdfifo_read_ptr := 5, cmdfifo_entry_count := 0\<rparr>"
  have rd4: "read32 m4 0x1000 = 0x80000158" "read32 m4 0x1004 = 5"
    "read32 m4 0x1008 = 0x11111111" "read32 m4 0x100c = 0x22222222"
    by (simp_all add: m4_def m3_def m2_def m1_def read32_def write32_def)
  have l32: "[0..<32] = [0, 1, 2, 3, 4, 5, 6, 7, 8, 9, 10, 11, 12, 13, 14, 15, 16, 17, 18, 19,
                         20, 21, 22, 23, 24, 25, 26, 27, 28, 29, 30, 31 :: nat]"
    by (simp add: upt_rec)
  have bits: "filter (bit (5::u32)) [0..<32] = [0, 2]"
    by (simp add: upt_rec)
  have g0: "cmdfifo_grouped_write K 0x56 5 0 (?a5, 0x1008) =
              (?a5\<lparr>regs := (\<lambda>_. 0)(0x93 := 0x1003, 0 := 0x11111111)\<rparr>, 0x100c)"
    by (simp add: cmdfifo_grouped_write_def Let_def f1 rd4 sst96 puma_addr_to_reg_def
        reg_write_index_0)
  have g2: "cmdfifo_grouped_write K 0x56 5 2
              (?a5\<lparr>regs := (\<lambda>_. 0)(0x93 := 0x1003, 0 := 0x11111111)\<rparr>, 0x100c) =
              (?a5\<lparr>regs := (\<lambda>_. 0)(0x93 := 0x1003, 0 := 0x22222222)\<rparr>, 0x1010)"
    by (simp add: cmdfifo_grouped_write_def Let_def f1 rd4 sst96 puma_addr_to_reg_def
        reg_write_index_0)
  have gn: "\<not> bit (5::u32) i \<Longrightarrow> cmdfifo_grouped_write K 0x56 5 i s = s" for i s
    by (simp only: cmdfifo_grouped_write_def Let_def if_not_P if_False prod.collapse)
  have fo: "fold (cmdfifo_grouped_write K 0x56 5) [0..<32] (?a5, 0x1008) =
              (?a5\<lparr>regs := (\<lambda>_. 0)(0x93 := 0x1003, 0 := 0x22222222)\<rparr>, 0x1010)"
    unfolding l32 by (simp add: g0 gn g2)
  have it5: "cmdfifo_iter K 0x1000 0x2000 512 ?a5 = Some ?b5"
    by (simp add: cmdfifo_iter_def cmdfifo_read_addr_def Let_def f1 rd4 bits fo)
  have lp5: "cmdfifo_loop K 0x1000 0x2000 512 1 ?a5 0 = ?b5"
    by (subst cmdfifo_loop_step [OF _ _ it5]) (simp_all add: cmdfifo_loop_stop)
  have pr5: "voodoo_rush_process_cmdfifo K ?a5 = ?b5"
    by (simp add: voodoo_rush_process_cmdfifo_def Let_def f1 lp5)
  have f4: "cmdfifo_enabled r4" "cmdfifo_bottom_page r4 = 1" "cmdfifo_top_page r4 = 2"
    "cmdfifo_entry_count r4 = 0" "puma_fb_mask r4 = 0x3fffff" "puma_fb r4 = m3"
    by (simp_all add: e4 f1)
  have w5: "voodoo_rush_cmdfifo_write K r4 0x1004 5 =
              voodoo_rush_process_cmdfifo K (r4\<lparr>puma_fb := m4, cmdfifo_entry_count := 1\<rparr>)"
    by (simp add: voodoo_rush_cmdfifo_write_def Let_def f4 m4_def)
  have x5: "r4\<lparr>puma_fb := m4, cmdfifo_entry_count := 1\<rparr> = ?a5"
    by (simp add: e4)
  have e5: "r5 = ?b5"
    by (simp only: r5_def w5 x5 pr5)
  have "cmdfifo_read_ptr r4 = 2 \<and> cmdfifo_entry_count r4 = 0 \<and>
       cmdfifo_read_ptr r5 = 5 \<and> cmdfifo_entry_count r5 = 0 \<and>
       regs r5 (unat SST96_COLOR0) = 0 \<and> color0 r5 = 0 \<and>
       regs r5 (unat SST96_FOG_COLOR) = 0 \<and> fog_color r5 = 0 \<and>
       regs r5 0 = 0x22222222"
    by (simp add: e4 e5 f1 sst96)
  then show ?thesis
    unfolding Let_def r5_def r4_def r3_def r2_def r1_def K_def .
qed

end
